theory Spec2Isabelle
  imports Main "HOL-Library.Char_ord" "HOL-Library.List_Lexorder"
begin

section \<open>The bridggy client: data model\<close>

text \<open>
  The client of \<^verbatim>\<open>src/index.ts\<close> is one class, \<^verbatim>\<open>Bridggy\<close>, with three private fields and
  the methods \<^verbatim>\<open>configure\<close>, \<^verbatim>\<open>fetch\<close>, \<^verbatim>\<open>exchange\<close>, \<^verbatim>\<open>getUrl\<close>, \<^verbatim>\<open>isTokenExpired\<close>,
  \<^verbatim>\<open>getTokenPayload\<close> and \<^verbatim>\<open>b64urlEncode\<close>.

  Conventions of the embedding.
  \<^item> A JavaScript string is a \<^typ>\<open>string\<close>: a list of code units, each in the range 0..255
    (the Latin-1 range; a \<^typ>\<open>char\<close> is one such code unit). Tokens, header names, header
    values and serialised URLs are of this kind.
  \<^item> A value that may be \<^verbatim>\<open>undefined\<close> is an \<open>option\<close>, \<open>None\<close> standing for \<^verbatim>\<open>undefined\<close>.
  \<^item> A thrown exception (or a rejected promise) is the left summand of \<open>error + 'a\<close>.
  \<^item> A number is an \<^typ>\<open>int\<close>: times are milliseconds since the epoch, \<^verbatim>\<open>exp\<close> is in
    seconds, and the arithmetic of \<^verbatim>\<open>isTokenExpired\<close> is exact on such values.
  \<^item> What the platform provides and the repository does not define (\<^verbatim>\<open>JSON.parse\<close>, the
    \<^verbatim>\<open>URL\<close> parser, \<^verbatim>\<open>Date.now\<close>, the global \<^verbatim>\<open>fetch\<close>) is a parameter of the function
    that calls it. \<^verbatim>\<open>atob\<close>, \<^verbatim>\<open>btoa\<close>, \<^verbatim>\<open>TextEncoder\<close>, \<^verbatim>\<open>String.prototype.split\<close> and the
    \<^verbatim>\<open>Headers\<close> class are written out, following the standards that define them.
\<close>

datatype error =
    Error string
  | TypeError string
  | SyntaxError
  | InvalidCharacterError

text \<open>The result of \<^verbatim>\<open>JSON.parse\<close>: a JSON value. An object is the list of its properties.\<close>

datatype json =
    JNull
  | JBool bool
  | JNumber int
  | JString string
  | JArray "json list"
  | JObject "(string \<times> json) list"

text \<open>The three private fields of the class; all are \<^verbatim>\<open>undefined\<close> after construction
  without a configuration. \<^verbatim>\<open>token\<close> is declared a string, but \<^verbatim>\<open>exchange\<close> assigns it the
  \<^verbatim>\<open>token\<close> property of a parsed response body, so at run time it holds whatever JSON
  value the server sent.\<close>

record client =
  proxyToken :: "string option"
  token :: "json option"
  retry :: "bool option"

definition new_client :: client where
  "new_client = \<lparr> proxyToken = None, token = None, retry = None \<rparr>"

text \<open>\<^verbatim>\<open>Config = { token: string; retry?: boolean }\<close>.\<close>

record config =
  cfg_token :: string
  cfg_retry :: "bool option"

text \<open>\<^verbatim>\<open>this.proxyToken = config.token; this.retry = config.retry ?? true\<close>.\<close>

definition configure :: "config \<Rightarrow> client \<Rightarrow> client" where
  "configure cfg c =
     c\<lparr> proxyToken := Some (cfg_token cfg),
        retry := Some (case cfg_retry cfg of None \<Rightarrow> True | Some r \<Rightarrow> r) \<rparr>"

text \<open>Truthiness: \<^verbatim>\<open>undefined\<close>, \<^verbatim>\<open>null\<close>, \<^verbatim>\<open>false\<close>, \<^verbatim>\<open>0\<close> and the empty string are falsy.\<close>

definition truthy :: "json option \<Rightarrow> bool" where
  "truthy v =
     (case v of
        None \<Rightarrow> False
      | Some JNull \<Rightarrow> False
      | Some (JBool b) \<Rightarrow> b
      | Some (JNumber n) \<Rightarrow> n \<noteq> 0
      | Some (JString s) \<Rightarrow> s \<noteq> []
      | Some _ \<Rightarrow> True)"

definition truthy_str :: "string option \<Rightarrow> bool" where
  "truthy_str v = truthy (map_option JString v)"

section \<open>Strings, base64 and the claims decoder\<close>

text \<open>\<^verbatim>\<open>s.split(sep)\<close> for a one-character separator: the pieces between the separators,
  always at least one piece.\<close>

fun js_split :: "char \<Rightarrow> string \<Rightarrow> string list" where
  "js_split sep [] = [[]]"
| "js_split sep (c # cs) =
     (if c = sep then [] # js_split sep cs
      else (case js_split sep cs of
              [] \<Rightarrow> [[c]]
            | w # ws \<Rightarrow> (c # w) # ws))"

text \<open>\<^verbatim>\<open>xs[i]\<close> on an array: \<^verbatim>\<open>undefined\<close> out of range.\<close>

definition js_index :: "'a list \<Rightarrow> nat \<Rightarrow> 'a option" where
  "js_index xs i = (if i < length xs then Some (xs ! i) else None)"

text \<open>\<^verbatim>\<open>s.replace(/a/g, b)\<close> for single characters \<open>a\<close> and \<open>b\<close>.\<close>

definition replace_all :: "char \<Rightarrow> char \<Rightarrow> string \<Rightarrow> string" where
  "replace_all a b s = map (\<lambda>c. if c = a then b else c) s"

text \<open>The base64 alphabet: the character of a six-bit value, and the value of a character.\<close>

definition b64_char :: "nat \<Rightarrow> char" where
  "b64_char n =
     (if n < 26 then char_of (65 + n)
      else if n < 52 then char_of (97 + (n - 26))
      else if n < 62 then char_of (48 + (n - 52))
      else if n = 62 then CHR ''+''
      else CHR ''/'')"

definition b64_index :: "char \<Rightarrow> nat option" where
  "b64_index c =
     (let k = (of_char c :: nat) in
      if 65 \<le> k \<and> k \<le> 90 then Some (k - 65)
      else if 97 \<le> k \<and> k \<le> 122 then Some (k - 97 + 26)
      else if 48 \<le> k \<and> k \<le> 57 then Some (k - 48 + 52)
      else if c = CHR ''+'' then Some 62
      else if c = CHR ''/'' then Some 63
      else None)"

text \<open>Six-bit values to bytes. A complete group of four gives three bytes; a last group of
  three gives two bytes and one of two gives one byte, the spare bits being dropped.\<close>

fun sextets_to_bytes :: "nat list \<Rightarrow> nat list" where
  "sextets_to_bytes (a # b # c # d # rest) =
     (a * 4 + b div 16) # ((b mod 16) * 16 + c div 4) # ((c mod 4) * 64 + d)
       # sextets_to_bytes rest"
| "sextets_to_bytes [a, b, c] = [a * 4 + b div 16, (b mod 16) * 16 + c div 4]"
| "sextets_to_bytes [a, b] = [a * 4 + b div 16]"
| "sextets_to_bytes [a] = []"
| "sextets_to_bytes [] = []"

definition ascii_whitespace :: "char \<Rightarrow> bool" where
  "ascii_whitespace c = ((of_char c :: nat) \<in> {9, 10, 12, 13, 32})"

text \<open>Removing one or two \<^verbatim>\<open>=\<close> at the end.\<close>

definition strip_padding :: "string \<Rightarrow> string" where
  "strip_padding s =
     (case rev s of
        c1 # c2 # r \<Rightarrow>
          (if c1 = CHR ''='' then (if c2 = CHR ''='' then rev r else rev (c2 # r)) else s)
      | [c1] \<Rightarrow> (if c1 = CHR ''='' then [] else s)
      | [] \<Rightarrow> s)"

text \<open>\<^verbatim>\<open>atob\<close>, the forgiving base64 decoder of the platform: ASCII whitespace is
  removed; when the length is a multiple of four, one or two \<^verbatim>\<open>=\<close> at the end are removed;
  a length of 1 modulo 4, or a character outside the alphabet, is an
  \<^verbatim>\<open>InvalidCharacterError\<close>; the result is the string of the decoded bytes.\<close>

definition atob :: "string \<Rightarrow> error + string" where
  "atob data =
     (let d1 = filter (\<lambda>c. \<not> ascii_whitespace c) data;
          d2 = (if length d1 mod 4 = 0 then strip_padding d1 else d1)
      in if length d2 mod 4 = 1 then Inl InvalidCharacterError
         else if list_ex (\<lambda>c. b64_index c = None) d2 then Inl InvalidCharacterError
         else Inr (map char_of (sextets_to_bytes (map (\<lambda>c. the (b64_index c)) d2))))"

text \<open>\<^verbatim>\<open>getTokenPayload\<close>:
  \<^verbatim>\<open>
  const payload = token.split('.')[1];
  if (!payload) throw new Error('Invalid token');
  const p = atob(payload.replace(/-/g, '+').replace(/_/g, '/'));
  return JSON.parse(p);
  \<close>
  \<open>parse\<close> is \<^verbatim>\<open>JSON.parse\<close>, \<open>None\<close> when it throws its \<^verbatim>\<open>SyntaxError\<close>. The argument is the
  run-time value passed: calling \<^verbatim>\<open>split\<close> on anything but a string throws a \<^verbatim>\<open>TypeError\<close>.\<close>

definition getTokenPayload :: "(string \<Rightarrow> json option) \<Rightarrow> json option \<Rightarrow> error + json" where
  "getTokenPayload parse tok =
     (case tok of
        Some (JString t) \<Rightarrow>
          (let payload = js_index (js_split (CHR ''.'') t) 1 in
           if \<not> truthy_str payload then Inl (Error ''Invalid token'')
           else (case atob (replace_all (CHR ''_'') (CHR ''/'')
                             (replace_all (CHR ''-'') (CHR ''+'') (the payload))) of
                   Inl e \<Rightarrow> Inl e
                 | Inr p \<Rightarrow> (case parse p of None \<Rightarrow> Inl SyntaxError | Some v \<Rightarrow> Inr v)))
      | _ \<Rightarrow> Inl (TypeError ''token.split is not a function''))"

text \<open>Reading one of the properties \<^verbatim>\<open>exp\<close>, \<^verbatim>\<open>aud\<close>, \<^verbatim>\<open>scope\<close>, \<^verbatim>\<open>token\<close> of a parsed value:
  on \<^verbatim>\<open>null\<close> it throws a \<^verbatim>\<open>TypeError\<close>, on an object it is the property or \<^verbatim>\<open>undefined\<close>,
  on any other value it is \<^verbatim>\<open>undefined\<close>.\<close>

definition get_prop :: "json \<Rightarrow> string \<Rightarrow> error + json option" where
  "get_prop v k =
     (case v of
        JNull \<Rightarrow> Inl (TypeError ''Cannot read properties of null'')
      | JObject ps \<Rightarrow> Inr (map_of ps k)
      | _ \<Rightarrow> Inr None)"

text \<open>\<^verbatim>\<open>isTokenExpired\<close>:
  \<^verbatim>\<open>
  if (!this.token) return true;
  try {
    const data = this.getTokenPayload(this.token);
    if (typeof data.exp !== 'number') throw new Error('Malformed token');
    // set expired if less than a minute before expiration
    return Date.now() > data.exp * 1000 - 60_000;
  } catch {
    throw new Error('invalid or malformed token');
  }
  \<close>
  \<open>now\<close> is the value of \<^verbatim>\<open>Date.now()\<close>.\<close>

definition isTokenExpired :: "(string \<Rightarrow> json option) \<Rightarrow> int \<Rightarrow> client \<Rightarrow> error + bool" where
  "isTokenExpired parse now c =
     (if \<not> truthy (token c) then Inr True
      else (case getTokenPayload parse (token c) of
              Inl e \<Rightarrow> Inl (Error ''invalid or malformed token'')
            | Inr data \<Rightarrow>
                (case get_prop data ''exp'' of
                   Inl e \<Rightarrow> Inl (Error ''invalid or malformed token'')
                 | Inr (Some (JNumber exp)) \<Rightarrow> Inr (now > exp * 1000 - 60000)
                 | Inr _ \<Rightarrow> Inl (Error ''invalid or malformed token''))))"

section \<open>The URL-safe base64 encoder\<close>

text \<open>\<^verbatim>\<open>TextEncoder.encode\<close>: the UTF-8 bytes of a string. A code unit below 128 is one
  byte; a code unit from 128 to 255 is two bytes.\<close>

definition utf8_encode :: "string \<Rightarrow> nat list" where
  "utf8_encode s =
     concat (map (\<lambda>c. let k = (of_char c :: nat) in
                       if k < 128 then [k] else [192 + k div 64, 128 + k mod 64]) s)"

text \<open>Standard base64 of a byte sequence, padded with \<^verbatim>\<open>=\<close> to a multiple of four.\<close>

fun bytes_to_b64 :: "nat list \<Rightarrow> string" where
  "bytes_to_b64 (a # b # c # rest) =
     b64_char (a div 4) # b64_char ((a mod 4) * 16 + b div 16)
       # b64_char ((b mod 16) * 4 + c div 64) # b64_char (c mod 64) # bytes_to_b64 rest"
| "bytes_to_b64 [a, b] =
     [b64_char (a div 4), b64_char ((a mod 4) * 16 + b div 16), b64_char ((b mod 16) * 4),
      CHR ''='']"
| "bytes_to_b64 [a] = [b64_char (a div 4), b64_char ((a mod 4) * 16), CHR ''='', CHR ''='']"
| "bytes_to_b64 [] = []"

text \<open>\<^verbatim>\<open>btoa\<close>. It throws on a code unit above 255; a \<^typ>\<open>string\<close> has none.\<close>

definition btoa :: "string \<Rightarrow> string" where
  "btoa bin = bytes_to_b64 (map of_char bin)"

text \<open>\<^verbatim>\<open>s.replace(/=+$/, '')\<close>: the run of \<^verbatim>\<open>=\<close> at the end is removed.\<close>

definition strip_trailing_eq :: "string \<Rightarrow> string" where
  "strip_trailing_eq s = rev (dropWhile (\<lambda>c. c = CHR ''='') (rev s))"

text \<open>\<^verbatim>\<open>b64urlEncode\<close>:
  \<^verbatim>\<open>
  const utf8 = encoder.encode(str);
  let bin = '';
  for (const byte of utf8) bin += String.fromCharCode(byte);
  return btoa(bin).replace(/\+/g, '-').replace(/\//g, '_').replace(/=+$/, '');
  \<close>\<close>

definition b64urlEncode :: "string \<Rightarrow> string" where
  "b64urlEncode str =
     (let utf8 = utf8_encode str;
          bin = map char_of utf8
      in strip_trailing_eq
           (replace_all (CHR ''/'') (CHR ''_'') (replace_all (CHR ''+'') (CHR ''-'') (btoa bin))))"

section \<open>Input normalisation\<close>

text \<open>A \<^verbatim>\<open>URL\<close> object; the client reads only its \<^verbatim>\<open>href\<close>.\<close>

datatype url = URL (href: string)

text \<open>A \<^verbatim>\<open>Headers\<close> object is its header list: names and values in insertion order.\<close>

type_synonym headers = "(string \<times> string) list"

text \<open>Values of the properties of a \<^verbatim>\<open>RequestInit\<close>, and of the options object handed to
  the transport. \<open>VHeaders\<close> is what \<^verbatim>\<open>new Headers\<close> accepts: a sequence of name and value
  pairs, the entries of a record, or a \<^verbatim>\<open>Headers\<close> object given by the pairs of its
  iteration.\<close>

datatype jsval =
    VUndefined
  | VNull
  | VBool bool
  | VString string
  | VHeaders headers

text \<open>A \<^verbatim>\<open>Request\<close> object, with the properties the client reads.\<close>

record request =
  req_url :: string
  req_method :: string
  req_headers :: headers
  req_body :: jsval
  req_redirect :: string

text \<open>The first argument of \<^verbatim>\<open>fetch\<close>: a string, a \<^verbatim>\<open>URL\<close>, a \<^verbatim>\<open>Request\<close>, or (for a caller
  that ignores the declared type) anything else.\<close>

datatype input = InString string | InURL url | InRequest request | InOther

definition is_Request :: "input \<Rightarrow> bool" where
  "is_Request i = (case i of InRequest r \<Rightarrow> True | _ \<Rightarrow> False)"

text \<open>\<^verbatim>\<open>getUrl\<close>:
  \<^verbatim>\<open>
  if (typeof input === 'string') {
    try { url = new URL(input); }
    catch { throw new TypeError(`input string must be an absolute URL, got "${input}"`); }
  } else if (input instanceof URL) { url = input; }
  else if (input instanceof Request) { url = new URL(input.url); }
  else { throw new TypeError('Unsupported input type'); }
  return url;
  \<close>
  \<open>url_parse\<close> is the constructor \<^verbatim>\<open>new URL(s)\<close>, \<open>None\<close> when it throws its \<^verbatim>\<open>TypeError\<close>.\<close>

definition getUrl :: "(string \<Rightarrow> url option) \<Rightarrow> input \<Rightarrow> error + url" where
  "getUrl url_parse i =
     (case i of
        InString s \<Rightarrow>
          (case url_parse s of
             None \<Rightarrow> Inl (TypeError (''input string must be an absolute URL, got '' @ [CHR 0x22] @ s
                                      @ [CHR 0x22]))
           | Some u \<Rightarrow> Inr u)
      | InURL u \<Rightarrow> Inr u
      | InRequest r \<Rightarrow>
          (case url_parse (req_url r) of
             None \<Rightarrow> Inl (TypeError ''Invalid URL'')
           | Some u \<Rightarrow> Inr u)
      | InOther \<Rightarrow> Inl (TypeError ''Unsupported input type''))"

section \<open>The Headers class\<close>

text \<open>The operations of the platform's \<^verbatim>\<open>Headers\<close> class that the client calls, after the
  Fetch standard. Names match byte-case-insensitively. A name must be a token and a value
  must hold no NUL, LF or CR, else the operation throws a \<^verbatim>\<open>TypeError\<close>; a value is stored
  with leading and trailing HTTP whitespace removed.\<close>

definition ascii_lower_char :: "char \<Rightarrow> char" where
  "ascii_lower_char c =
     (let k = (of_char c :: nat) in if 65 \<le> k \<and> k \<le> 90 then char_of (k + 32) else c)"

text \<open>\<^verbatim>\<open>toLowerCase\<close> on a header name (a token has ASCII characters only).\<close>

definition toLowerCase :: "string \<Rightarrow> string" where
  "toLowerCase s = map ascii_lower_char s"

definition name_eq :: "string \<Rightarrow> string \<Rightarrow> bool" where
  "name_eq a b = (toLowerCase a = toLowerCase b)"

definition token_char :: "char \<Rightarrow> bool" where
  "token_char c =
     (let k = (of_char c :: nat) in
      (48 \<le> k \<and> k \<le> 57) \<or> (65 \<le> k \<and> k \<le> 90) \<or> (97 \<le> k \<and> k \<le> 122) \<or>
      c \<in> set ''!#$%&*+-.^_`|~'' \<or> k = 39)"

definition valid_name :: "string \<Rightarrow> bool" where
  "valid_name n = (n \<noteq> [] \<and> list_all token_char n)"

definition http_whitespace :: "char \<Rightarrow> bool" where
  "http_whitespace c = ((of_char c :: nat) \<in> {9, 10, 13, 32})"

definition normalize_value :: "string \<Rightarrow> string" where
  "normalize_value v = rev (dropWhile http_whitespace (rev (dropWhile http_whitespace v)))"

definition valid_value :: "string \<Rightarrow> bool" where
  "valid_value v = list_all (\<lambda>c. (of_char c :: nat) \<notin> {0, 10, 13}) v"

definition headers_contains :: "string \<Rightarrow> headers \<Rightarrow> bool" where
  "headers_contains name hs = list_ex (\<lambda>(n, v). name_eq n name) hs"

text \<open>\<^verbatim>\<open>append\<close>: a new entry at the end of the list.\<close>

definition headers_append :: "string \<Rightarrow> string \<Rightarrow> headers \<Rightarrow> error + headers" where
  "headers_append name v hs =
     (let v' = normalize_value v in
      if \<not> valid_name name \<or> \<not> valid_value v' then Inl (TypeError ''Invalid header'')
      else Inr (hs @ [(name, v')]))"

text \<open>Setting the first entry of that name and removing the other ones.\<close>

fun set_first :: "string \<Rightarrow> string \<Rightarrow> headers \<Rightarrow> headers" where
  "set_first name v [] = []"
| "set_first name v ((n, w) # hs) =
     (if name_eq n name then (n, v) # filter (\<lambda>(n', w'). \<not> name_eq n' name) hs
      else (n, w) # set_first name v hs)"

text \<open>\<^verbatim>\<open>set\<close>: the entry of that name gets the value, a name not yet present is appended.\<close>

definition headers_set :: "string \<Rightarrow> string \<Rightarrow> headers \<Rightarrow> error + headers" where
  "headers_set name v hs =
     (let v' = normalize_value v in
      if \<not> valid_name name \<or> \<not> valid_value v' then Inl (TypeError ''Invalid header'')
      else if headers_contains name hs then Inr (set_first name v' hs)
      else Inr (hs @ [(name, v')]))"

text \<open>\<^verbatim>\<open>delete\<close>: every entry of that name is removed.\<close>

definition headers_delete :: "string \<Rightarrow> headers \<Rightarrow> headers" where
  "headers_delete name hs = filter (\<lambda>(n, v). \<not> name_eq n name) hs"

text \<open>Joining strings with a separator.\<close>

fun join :: "string \<Rightarrow> string list \<Rightarrow> string" where
  "join sep [] = []"
| "join sep [x] = x"
| "join sep (x # y # ys) = x @ sep @ join sep (y # ys)"

text \<open>\<^verbatim>\<open>get\<close>: \<^verbatim>\<open>null\<close> for a name not present, else the values of that name, in order,
  joined with a comma and a space.\<close>

definition headers_get :: "string \<Rightarrow> headers \<Rightarrow> string option" where
  "headers_get name hs =
     (if headers_contains name hs
      then Some (join '', '' (map snd (filter (\<lambda>(n, v). name_eq n name) hs)))
      else None)"

text \<open>\<^verbatim>\<open>new Headers(init)\<close>: the entries of \<open>init\<close> are appended one by one; \<^verbatim>\<open>undefined\<close>
  gives the empty list, a value that is neither a sequence nor a record throws.\<close>

fun headers_fill :: "headers \<Rightarrow> headers \<Rightarrow> error + headers" where
  "headers_fill [] hs = Inr hs"
| "headers_fill ((n, v) # rest) hs =
     (case headers_append n v hs of Inl e \<Rightarrow> Inl e | Inr hs' \<Rightarrow> headers_fill rest hs')"

definition new_Headers :: "jsval \<Rightarrow> error + headers" where
  "new_Headers init =
     (case init of
        VUndefined \<Rightarrow> Inr []
      | VHeaders l \<Rightarrow> headers_fill l []
      | _ \<Rightarrow> Inl (TypeError ''Invalid headers init''))"

text \<open>The pairs that iteration visits (``sort and combine''): the lower-cased names, each
  once, in ascending order of code units; a name comes with its combined value, except
  \<^verbatim>\<open>set-cookie\<close>, which comes once for every value.\<close>

definition sort_and_combine :: "headers \<Rightarrow> headers" where
  "sort_and_combine hs =
     concat (map (\<lambda>name.
                if name = ''set-cookie''
                then map (\<lambda>(n, v). (name, v)) (filter (\<lambda>(n, v). name_eq n name) hs)
                else [(name, the (headers_get name hs))])
             (sort (remdups (map (\<lambda>(n, v). toLowerCase n) hs))))"

section \<open>Header assembly\<close>

definition HeaderStatus :: string where "HeaderStatus = ''gg-x-status''"
definition HeaderError :: string where "HeaderError = ''gg-x-error''"
definition HeaderOrigin :: string where "HeaderOrigin = ''Origin''"
definition HeaderToken :: string where "HeaderToken = ''gg-x-token''"
definition HeaderTimestamp :: string where "HeaderTimestamp = ''gg-x-timestamp''"
definition HeaderSource :: string where "HeaderSource = ''gg-x-source''"
definition SourceName :: string where "SourceName = ''client''"
definition RetryDelay :: nat where "RetryDelay = 2000"

definition NonProxyHeaders :: "string list" where
  "NonProxyHeaders =
     [''user-agent'', ''x-forwarded-for'', ''cookie'', ''connection'', ''keep-alive'',
      ''transfer-encoding'', ''upgrade-insecure-requests'', ''priority'']"

definition startsWith :: "string \<Rightarrow> string \<Rightarrow> bool" where
  "startsWith s p = (take (length p) s = p)"

text \<open>The test of the callback:
  \<^verbatim>\<open>NonProxyHeaders.includes(lowerKey) || lowerKey.startsWith('sec-')\<close>
  with \<^verbatim>\<open>lowerKey = key.toLowerCase()\<close>.\<close>

definition non_proxy :: "string \<Rightarrow> bool" where
  "non_proxy key =
     (let lowerKey = toLowerCase key
      in lowerKey \<in> set NonProxyHeaders \<or> startsWith lowerKey ''sec-'')"

text \<open>How many pairs a name contributes to the iteration.\<close>

definition pair_weight :: "headers \<Rightarrow> string \<Rightarrow> nat" where
  "pair_weight hs name =
     (if name = ''set-cookie'' then length (filter (\<lambda>(n, v). name_eq n name) hs) else 1)"

lemma length_sort_and_combine:
  "length (sort_and_combine hs) = sum (pair_weight hs) (set (map (\<lambda>(n, v). toLowerCase n) hs))"
proof -
  have "length (sort_and_combine hs)
        = sum_list (map (pair_weight hs) (sort (remdups (map (\<lambda>(n, v). toLowerCase n) hs))))"
    unfolding sort_and_combine_def length_concat map_map
    by (rule arg_cong[where f=sum_list], rule map_cong) (auto simp: pair_weight_def)
  also have "\<dots> = sum (pair_weight hs) (set (sort (remdups (map (\<lambda>(n, v). toLowerCase n) hs))))"
    by (rule sum_list_distinct_conv_sum_set) simp
  finally show ?thesis by simp
qed

lemma toLowerCase_set_cookie: "toLowerCase ''set-cookie'' = ''set-cookie''"
  by code_simp

lemma pair_weight_delete:
  assumes "name \<noteq> toLowerCase k"
  shows "pair_weight (headers_delete k hs) name = pair_weight hs name"
proof (cases "name = ''set-cookie''")
  case False
  then show ?thesis by (simp add: pair_weight_def)
next
  case True
  have "filter (\<lambda>(n, v). name_eq n name) (filter (\<lambda>(n, v). \<not> name_eq n k) hs)
        = filter (\<lambda>(n, v). name_eq n name) hs"
    unfolding filter_filter
    by (rule filter_cong) (use assms True in \<open>auto simp: name_eq_def toLowerCase_set_cookie\<close>)
  with True show ?thesis by (simp add: pair_weight_def headers_delete_def)
qed

lemma names_delete:
  "set (map (\<lambda>(n, v). toLowerCase n) (headers_delete k hs))
   = set (map (\<lambda>(n, v). toLowerCase n) hs) - {toLowerCase k}"
  by (auto simp: headers_delete_def name_eq_def)

lemma length_sort_and_combine_delete:
  "length (sort_and_combine (headers_delete k hs)) \<le> length (sort_and_combine hs)"
proof -
  let ?S = "set (map (\<lambda>(n, v). toLowerCase n) hs)"
  have "length (sort_and_combine (headers_delete k hs))
        = sum (pair_weight (headers_delete k hs)) (?S - {toLowerCase k})"
    by (simp only: length_sort_and_combine names_delete)
  also have "\<dots> = sum (pair_weight hs) (?S - {toLowerCase k})"
    by (rule sum.cong) (auto simp: pair_weight_delete)
  also have "\<dots> \<le> sum (pair_weight hs) ?S"
    by (rule sum_mono2) auto
  finally show ?thesis by (simp only: length_sort_and_combine)
qed

text \<open>The loop that removes the privacy headers:
  \<^verbatim>\<open>
  headers.forEach((_, key) => {
    const lowerKey = key.toLowerCase();
    if (NonProxyHeaders.includes(lowerKey) || lowerKey.startsWith('sec-')) {
      headers.delete(key);
    }
  });
  \<close>
  \<^verbatim>\<open>forEach\<close> of a \<^verbatim>\<open>Headers\<close> object is the pair iteration of Web IDL: with an index \<open>i\<close>
  starting at 0, while \<open>i\<close> is below the number of pairs, the callback runs on pair \<open>i\<close>,
  then the pairs are read again from the object (``it might have changed'') and \<open>i\<close> goes
  up by one. The callback deletes from the object the loop is iterating.\<close>

function forEach_strip :: "nat \<Rightarrow> headers \<Rightarrow> headers" where
  "forEach_strip i hs =
     (let pairs = sort_and_combine hs in
      if i < length pairs
      then (let key = fst (pairs ! i)
            in forEach_strip (Suc i) (if non_proxy key then headers_delete key hs else hs))
      else hs)"
  by pat_completeness auto
termination
proof (relation "measure (\<lambda>(i, hs). length (sort_and_combine hs) - i)", goal_cases)
  case 1
  show ?case by simp
next
  case (2 i hs pairs key)
  have "length (sort_and_combine (headers_delete key hs)) \<le> length (sort_and_combine hs)"
    by (rule length_sort_and_combine_delete)
  with 2 show ?case by auto
qed

text \<open>An object is a finite map from property names to values; a property that is not
  there reads as \<^verbatim>\<open>undefined\<close>.\<close>

type_synonym obj = "string \<rightharpoonup> jsval"

definition obj_get :: "obj \<Rightarrow> string \<Rightarrow> jsval" where
  "obj_get ob k = (case ob k of None \<Rightarrow> VUndefined | Some v \<Rightarrow> v)"

text \<open>\<^verbatim>\<open>init?.k\<close> for the optional argument \<^verbatim>\<open>init\<close>.\<close>

definition init_get :: "obj option \<Rightarrow> string \<Rightarrow> jsval" where
  "init_get init k = (case init of None \<Rightarrow> VUndefined | Some m \<Rightarrow> obj_get m k)"

text \<open>Decimal digits of a number (\<^verbatim>\<open>toString\<close> on an integer).\<close>

fun show_nat :: "nat \<Rightarrow> string" where
  "show_nat n =
     (if n < 10 then [char_of (48 + n)] else show_nat (n div 10) @ [char_of (48 + n mod 10)])"

definition show_int :: "int \<Rightarrow> string" where
  "show_int i = (if i < 0 then CHR ''-'' # show_nat (nat (- i)) else show_nat (nat i))"

text \<open>The string a template literal makes of a value. An object with a \<^verbatim>\<open>toString\<close>
  property of its own (from JSON, never a function) has no primitive value: a \<^verbatim>\<open>TypeError\<close>,
  here \<open>None\<close>. An array joins its elements with commas, \<^verbatim>\<open>null\<close> elements being empty.\<close>

fun json_string :: "json \<Rightarrow> string option" where
  "json_string JNull = Some ''null''"
| "json_string (JBool b) = Some (if b then ''true'' else ''false'')"
| "json_string (JNumber n) = Some (show_int n)"
| "json_string (JString s) = Some s"
| "json_string (JArray xs) =
     map_option (join '','')
       (those (map (\<lambda>x. if x = JNull then Some [] else json_string x) xs))"
| "json_string (JObject ps) =
     (if ''toString'' \<in> set (map fst ps) then None else Some ''[object Object]'')"

definition js_string :: "json option \<Rightarrow> error + string" where
  "js_string v =
     (case v of
        None \<Rightarrow> Inr ''undefined''
      | Some j \<Rightarrow> (case json_string j of
                    None \<Rightarrow> Inl (TypeError ''Cannot convert object to primitive value'')
                  | Some s \<Rightarrow> Inr s))"

text \<open>Header assembly, lines 68 to 80 of \<^verbatim>\<open>fetch\<close>:
  \<^verbatim>\<open>
  const headers = new Headers(input instanceof Request ? input.headers : init?.headers);
  headers.set(HeaderSource, SourceName);
  headers.set(HeaderToken, this.token);
  if (typeof window !== 'undefined') headers.set(HeaderOrigin, window.location.origin);
  headers.forEach(...);
  \<close>
  \<open>origin\<close> is \<^verbatim>\<open>window.location.origin\<close>, \<open>None\<close> where there is no \<^verbatim>\<open>window\<close>. The headers of
  a \<^verbatim>\<open>Request\<close> are a \<^verbatim>\<open>Headers\<close> object, copied through its iteration.\<close>

definition assemble_headers ::
  "string option \<Rightarrow> json option \<Rightarrow> input \<Rightarrow> obj option \<Rightarrow> error + headers" where
  "assemble_headers origin tok i init =
     (case new_Headers (case i of
                          InRequest r \<Rightarrow> VHeaders (sort_and_combine (req_headers r))
                        | _ \<Rightarrow> init_get init ''headers'') of
        Inl e \<Rightarrow> Inl e
      | Inr h0 \<Rightarrow>
     (case headers_set HeaderSource SourceName h0 of
        Inl e \<Rightarrow> Inl e
      | Inr h1 \<Rightarrow>
     (case js_string tok of
        Inl e \<Rightarrow> Inl e
      | Inr t \<Rightarrow>
     (case headers_set HeaderToken t h1 of
        Inl e \<Rightarrow> Inl e
      | Inr h2 \<Rightarrow>
     (case (case origin of None \<Rightarrow> Inr h2 | Some og \<Rightarrow> headers_set HeaderOrigin og h2) of
        Inl e \<Rightarrow> Inl e
      | Inr h3 \<Rightarrow> Inr (forEach_strip 0 h3))))))"

section \<open>Request options, dispatch and retry\<close>

text \<open>The outgoing options, lines 83 to 90 of \<^verbatim>\<open>fetch\<close>:
  \<^verbatim>\<open>
  // create request - spread init first, then override with proxy headers
  const { headers: _initHeaders, ...restInit } = init || {};
  const req: RequestInit = {
    method: input instanceof Request ? input.method : init?.method,
    body: input instanceof Request ? input.body : init?.body,
    redirect: input instanceof Request ? input.redirect : init?.redirect,
    ...restInit, // other init properties
    headers
  };
  \<close>
  \<open>restInit\<close> has every property of \<open>init\<close> but \<^verbatim>\<open>headers\<close>. In an object literal a later
  property of the same name replaces an earlier one, and a spread sets every property of its
  object: the literal is the map of the first three properties, overridden by \<open>restInit\<close>,
  overridden by \<^verbatim>\<open>headers\<close>.\<close>

definition assemble_options :: "input \<Rightarrow> obj option \<Rightarrow> headers \<Rightarrow> obj" where
  "assemble_options i init hs =
     (let restInit = (case init of None \<Rightarrow> Map.empty | Some m \<Rightarrow> m(''headers'' := None))
      in ([''method'' \<mapsto> (case i of InRequest r \<Rightarrow> VString (req_method r)
                                    | _ \<Rightarrow> init_get init ''method''),
           ''body'' \<mapsto> (case i of InRequest r \<Rightarrow> req_body r | _ \<Rightarrow> init_get init ''body''),
           ''redirect'' \<mapsto> (case i of InRequest r \<Rightarrow> VString (req_redirect r)
                                      | _ \<Rightarrow> init_get init ''redirect'')]
          ++ restInit)(''headers'' \<mapsto> VHeaders hs))"

text \<open>A \<^verbatim>\<open>Response\<close>, with what the client reads of it. \<^verbatim>\<open>resp.json()\<close> parses the body.\<close>

record response =
  resp_ok :: bool
  resp_status :: int
  resp_headers :: headers
  resp_body :: string

text \<open>What a call does beyond its result: calls of the transport (the global \<^verbatim>\<open>fetch\<close>)
  with the URL and the options, and waits.\<close>

datatype event = Call string obj | Sleep nat

definition is_Call :: "event \<Rightarrow> bool" where
  "is_Call e = (case e of Call u ob \<Rightarrow> True | Sleep n \<Rightarrow> False)"

text \<open>The transport: the response (or the rejection) to a request, which may depend on how
  many requests came before it.\<close>

type_synonym transport = "nat \<Rightarrow> string \<Rightarrow> obj \<Rightarrow> error + response"

text \<open>\<^verbatim>\<open>${proxyStatus}\<close> for the result of \<^verbatim>\<open>headers.get\<close>, a string or \<^verbatim>\<open>null\<close>.\<close>

definition string_or_null :: "string option \<Rightarrow> string" where
  "string_or_null v = (case v of None \<Rightarrow> ''null'' | Some s \<Rightarrow> s)"

text \<open>The loop of lines 92 to 112:
  \<^verbatim>\<open>
  for (let i = 0; i < 2; i++) {
    const resp = await fetch(proxyUrl, req);
    const proxyError = resp.headers.get(HeaderError);
    const proxyStatus = resp.headers.get(HeaderStatus);
    // throw error if present
    if (proxyError) {
      // onetime retry on GET
      if (this.retry && i === 0 && req.method === 'GET' && proxyStatus === '502') {
        await this.sleep(RetryDelay);
        continue;
      }
      throw new Error(`status: ${proxyStatus} ${proxyError}`);
    }
    return resp;
  }
  throw new Error('proxy: unexpected fetch failed after retries');
  \<close>
  \<open>k\<close> counts the transport calls made before this one.\<close>

function dispatch ::
  "transport \<Rightarrow> bool option \<Rightarrow> string \<Rightarrow> obj \<Rightarrow> nat \<Rightarrow> nat \<Rightarrow> (error + response) \<times> event list"
where
  "dispatch tr rt proxyUrl req k i =
     (if i < 2 then
        (case tr k proxyUrl req of
           Inl e \<Rightarrow> (Inl e, [Call proxyUrl req])
         | Inr resp \<Rightarrow>
             (let proxyError = headers_get HeaderError (resp_headers resp);
                  proxyStatus = headers_get HeaderStatus (resp_headers resp)
              in if truthy_str proxyError then
                   (if rt = Some True \<and> i = 0 \<and> obj_get req ''method'' = VString ''GET''
                       \<and> proxyStatus = Some ''502''
                    then (case dispatch tr rt proxyUrl req (Suc k) (Suc i) of
                            (r, evs) \<Rightarrow> (r, Call proxyUrl req # Sleep RetryDelay # evs))
                    else (Inl (Error (''status: '' @ string_or_null proxyStatus @ '' ''
                                       @ the proxyError)),
                          [Call proxyUrl req]))
                 else (Inr resp, [Call proxyUrl req])))
      else (Inl (Error ''proxy: unexpected fetch failed after retries''), []))"
  by pat_completeness auto
termination
  by (relation "measure (\<lambda>(tr, rt, proxyUrl, req, k, i). 2 - i)") auto

section \<open>The exchange\<close>

definition hex_digit :: "nat \<Rightarrow> char" where
  "hex_digit n = (if n < 10 then char_of (48 + n) else char_of (87 + n))"

text \<open>The characters \<^verbatim>\<open>JSON.stringify\<close> writes for one character of a string.\<close>

definition json_quote_char :: "char \<Rightarrow> string" where
  "json_quote_char c =
     (let k = (of_char c :: nat) in
      if k = 8 then [CHR 0x5C, CHR ''b'']
      else if k = 9 then [CHR 0x5C, CHR ''t'']
      else if k = 10 then [CHR 0x5C, CHR ''n'']
      else if k = 12 then [CHR 0x5C, CHR ''f'']
      else if k = 13 then [CHR 0x5C, CHR ''r'']
      else if k = 34 then [CHR 0x5C, CHR 0x22]
      else if k = 92 then [CHR 0x5C, CHR 0x5C]
      else if k < 32 then [CHR 0x5C, CHR ''u'', CHR ''0'', CHR ''0'', hex_digit (k div 16),
                           hex_digit (k mod 16)]
      else [c])"

definition json_quote :: "string \<Rightarrow> string" where
  "json_quote s = [CHR 0x22] @ concat (map json_quote_char s) @ [CHR 0x22]"

text \<open>\<^verbatim>\<open>JSON.stringify({ token: t })\<close>; a property that is \<^verbatim>\<open>undefined\<close> is left out.\<close>

definition stringify_TokenRequest :: "string option \<Rightarrow> string" where
  "stringify_TokenRequest t =
     (case t of
        None \<Rightarrow> ''{}''
      | Some s \<Rightarrow> [CHR ''{'', CHR 0x22] @ ''token'' @ [CHR 0x22, CHR '':''] @ json_quote s @ ''}'')"

text \<open>What the platform provides to a call of \<^verbatim>\<open>fetch\<close>: \<^verbatim>\<open>JSON.parse\<close>, \<^verbatim>\<open>new URL\<close>,
  \<^verbatim>\<open>window.location.origin\<close> where there is a window, the value of \<^verbatim>\<open>Date.now()\<close> in
  \<^verbatim>\<open>isTokenExpired\<close> and in \<^verbatim>\<open>exchange\<close>, and the transport.\<close>

record env =
  json_parse :: "string \<Rightarrow> json option"
  url_parse :: "string \<Rightarrow> url option"
  window_origin :: "string option"
  now_check :: int
  now_exchange :: int
  global_fetch :: transport

text \<open>\<^verbatim>\<open>exchange\<close>:
  \<^verbatim>\<open>
  const req: TokenRequest = { token: this.proxyToken };
  const headers = [
    ['Content-Type', 'application/json'],
    [HeaderTimestamp, Date.now().toString()],
    [HeaderSource, SourceName]
  ];
  const resp = await fetch(`${this.getTokenPayload(this.proxyToken).aud}/token/exchange`, {
    method: 'POST',
    headers: Object.fromEntries(headers),
    body: JSON.stringify(req)
  });
  if (!resp.ok) {
    throw new Error(`status: ${resp.status} proxy: Token exchange failed`);
  }
  const tokenResp: TokenResponse = await resp.json();
  this.token = tokenResp.token;
  \<close>
  The result is the client after the call, or the error, and the events of the call.\<close>

definition exchange :: "env \<Rightarrow> client \<Rightarrow> (error + client) \<times> event list" where
  "exchange ev c =
     (let headers = [(''Content-Type'', ''application/json''),
                     (HeaderTimestamp, show_int (now_exchange ev)),
                     (HeaderSource, SourceName)]
      in
      case getTokenPayload (json_parse ev) (map_option JString (proxyToken c)) of
        Inl e \<Rightarrow> (Inl e, [])
      | Inr payload \<Rightarrow>
     (case get_prop payload ''aud'' of
        Inl e \<Rightarrow> (Inl e, [])
      | Inr aud \<Rightarrow>
     (case js_string aud of
        Inl e \<Rightarrow> (Inl e, [])
      | Inr aud_s \<Rightarrow>
     (let u = aud_s @ ''/token/exchange'';
          opts = [''method'' \<mapsto> VString ''POST'',
                  ''headers'' \<mapsto> VHeaders headers,
                  ''body'' \<mapsto> VString (stringify_TokenRequest (proxyToken c))]
      in
      case global_fetch ev 0 u opts of
        Inl e \<Rightarrow> (Inl e, [Call u opts])
      | Inr resp \<Rightarrow>
          if \<not> resp_ok resp
          then (Inl (Error (''status: '' @ show_int (resp_status resp)
                            @ '' proxy: Token exchange failed'')),
                [Call u opts])
          else (case json_parse ev (resp_body resp) of
                  None \<Rightarrow> (Inl SyntaxError, [Call u opts])
                | Some tokenResp \<Rightarrow>
                    (case get_prop tokenResp ''token'' of
                       Inl e \<Rightarrow> (Inl e, [Call u opts])
                     | Inr t \<Rightarrow> (Inr (c\<lparr>token := t\<rparr>), [Call u opts])))))))"

section \<open>fetch\<close>

text \<open>Lines 62 to 90 of \<^verbatim>\<open>fetch\<close>: the proxy URL and the outgoing options.
  \<^verbatim>\<open>
  const url = this.getUrl(input);
  const proxyUrl = `https://${this.getTokenPayload(this.token).scope}.bridggy.com/proxy?u=${this.b64urlEncode(url.href)}`;
  \<close>
  followed by the header assembly and the options.\<close>

definition proxy_url :: "string \<Rightarrow> string \<Rightarrow> string" where
  "proxy_url scope_s h = ''https://'' @ scope_s @ ''.bridggy.com/proxy?u='' @ b64urlEncode h"

definition build_request :: "env \<Rightarrow> client \<Rightarrow> input \<Rightarrow> obj option \<Rightarrow> error + string \<times> obj" where
  "build_request ev c i init =
     (case getUrl (url_parse ev) i of
        Inl e \<Rightarrow> Inl e
      | Inr u \<Rightarrow>
     (case getTokenPayload (json_parse ev) (token c) of
        Inl e \<Rightarrow> Inl e
      | Inr payload \<Rightarrow>
     (case get_prop payload ''scope'' of
        Inl e \<Rightarrow> Inl e
      | Inr scope \<Rightarrow>
     (case js_string scope of
        Inl e \<Rightarrow> Inl e
      | Inr scope_s \<Rightarrow>
     (case assemble_headers (window_origin ev) (token c) i init of
        Inl e \<Rightarrow> Inl e
      | Inr hs \<Rightarrow> Inr (proxy_url scope_s (href u), assemble_options i init hs))))))"

text \<open>\<^verbatim>\<open>fetch\<close>:
  \<^verbatim>\<open>
  if (!this.proxyToken) throw new Error('Config not provided');
  if (this.isTokenExpired()) await this.exchange();
  \<close>
  then the request is built and dispatched. The result is the response or the error, the
  client after the call, and the events of the call in order.\<close>

definition fetch ::
  "env \<Rightarrow> client \<Rightarrow> input \<Rightarrow> obj option \<Rightarrow> (error + response) \<times> client \<times> event list" where
  "fetch ev c i init =
     (if \<not> truthy_str (proxyToken c) then (Inl (Error ''Config not provided''), c, [])
      else
      case isTokenExpired (json_parse ev) (now_check ev) c of
        Inl e \<Rightarrow> (Inl e, c, [])
      | Inr expired \<Rightarrow>
     (case (if expired then exchange ev c else (Inr c, [])) of
        (Inl e, evs) \<Rightarrow> (Inl e, c, evs)
      | (Inr c', evs) \<Rightarrow>
     (case build_request ev c' i init of
        Inl e \<Rightarrow> (Inl e, c', evs)
      | Inr (proxyUrl, req) \<Rightarrow>
     (case dispatch (global_fetch ev) (retry c') proxyUrl req (length (filter is_Call evs)) 0 of
        (r, evs') \<Rightarrow> (r, c', evs @ evs')))))"

declare show_nat.simps [simp del]

declare forEach_strip.simps [simp del]

declare dispatch.simps [simp del]

section \<open>Vocabulary of the statements\<close>

text \<open>The second piece of a token, said without \<^verbatim>\<open>split\<close>: what stands between the first dot
  and the next one (or the end). And the two replacements of \<^verbatim>\<open>getTokenPayload\<close>, which turn
  the URL-safe alphabet into the standard one.\<close>

definition second_segment :: "string \<Rightarrow> string" where
  "second_segment t =
     takeWhile (\<lambda>c. c \<noteq> CHR ''.'') (tl (dropWhile (\<lambda>c. c \<noteq> CHR ''.'') t))"

definition b64url_to_b64 :: "string \<Rightarrow> string" where
  "b64url_to_b64 s = replace_all (CHR ''_'') (CHR ''/'') (replace_all (CHR ''-'') (CHR ''+'') s)"

text \<open>The six-bit values of a byte sequence, without padding: what \<open>bytes_to_b64\<close> writes
  before the \<^verbatim>\<open>=\<close> signs.\<close>

fun bytes_to_sextets :: "nat list \<Rightarrow> nat list" where
  "bytes_to_sextets (a # b # c # rest) =
     (a div 4) # ((a mod 4) * 16 + b div 16) # ((b mod 16) * 4 + c div 64) # (c mod 64)
       # bytes_to_sextets rest"
| "bytes_to_sextets [a, b] = [a div 4, (a mod 4) * 16 + b div 16, (b mod 16) * 4]"
| "bytes_to_sextets [a] = [a div 4, (a mod 4) * 16]"
| "bytes_to_sextets [] = []"

text \<open>Reading UTF-8 back, on the sequences \<open>utf8_encode\<close> produces: a byte below 128 is one
  code unit, a lead byte and its continuation byte are one code unit from 128 to 255. (A
  lead byte at the very end, which \<open>utf8_encode\<close> never writes, is kept as it is.)\<close>

fun utf8_decode :: "string \<Rightarrow> string" where
  "utf8_decode [] = []"
| "utf8_decode [c] = [c]"
| "utf8_decode (c # d # cs) =
     (if (of_char c :: nat) < 128 then c # utf8_decode (d # cs)
      else char_of (((of_char c :: nat) - 192) * 64 + ((of_char d :: nat) - 128)) # utf8_decode cs)"

text \<open>The reverse of the URL-safe base64 transform, as the specification words it: the
  URL-safe alphabet is turned back into the standard one, base64 is decoded, and the bytes
  are read as UTF-8.\<close>

definition b64urlDecode :: "string \<Rightarrow> error + string" where
  "b64urlDecode u =
     (case atob (b64url_to_b64 u) of Inl e \<Rightarrow> Inl e | Inr bin \<Rightarrow> Inr (utf8_decode bin))"

text \<open>The characters of unpadded URL-safe base64: letters, digits, \<^verbatim>\<open>-\<close> and \<^verbatim>\<open>_\<close>.\<close>

definition url_safe :: "char \<Rightarrow> bool" where
  "url_safe c =
     (let k = (of_char c :: nat) in
      (48 \<le> k \<and> k \<le> 57) \<or> (65 \<le> k \<and> k \<le> 90) \<or> (97 \<le> k \<and> k \<le> 122) \<or> k = 45 \<or> k = 95)"

text \<open>The URL-safe character of a six-bit value.\<close>

definition b64url_char :: "nat \<Rightarrow> char" where
  "b64url_char n = (if n = 62 then CHR ''-'' else if n = 63 then CHR ''_'' else b64_char n)"




text \<open>A character that \<^verbatim>\<open>JSON.stringify\<close> writes as it is.\<close>

definition json_plain_char :: "char \<Rightarrow> bool" where
  "json_plain_char c = (32 \<le> (of_char c :: nat) \<and> c \<noteq> CHR 0x22 \<and> c \<noteq> CHR 0x5C)"

text \<open>The number a string of decimal digits denotes.\<close>

definition decimal_value :: "string \<Rightarrow> nat" where
  "decimal_value s = foldl (\<lambda>a c. 10 * a + ((of_char c :: nat) - 48)) 0 s"

definition is_digit :: "char \<Rightarrow> bool" where
  "is_digit c = (48 \<le> (of_char c :: nat) \<and> (of_char c :: nat) \<le> 57)"

text \<open>The options object of the request that \<^verbatim>\<open>exchange\<close> sends.\<close>

definition exchange_options :: "env \<Rightarrow> client \<Rightarrow> obj" where
  "exchange_options ev c =
     [''method'' \<mapsto> VString ''POST'',
      ''headers'' \<mapsto> VHeaders [(''Content-Type'', ''application/json''),
                                 (''gg-x-timestamp'', show_int (now_exchange ev)),
                                 (''gg-x-source'', ''client'')],
      ''body'' \<mapsto> VString (stringify_TokenRequest (proxyToken c))]"

section \<open>Fixtures\<close>

text \<open>Concrete inputs for the examples below. \<open>parse_fixture\<close> stands for \<^verbatim>\<open>JSON.parse\<close> on the
  few texts the examples decode, and \<open>holding t\<close> is a configured client that holds the
  access credential \<open>t\<close>.\<close>

definition parse_fixture :: "string \<Rightarrow> json option" where
  \<open>parse_fixture s =
     (if s = ''{"exp":100}'' then Some (JObject [(''exp'', JNumber 100)])
      else if s = ''{"exp":"soon"}'' then Some (JObject [(''exp'', JString ''soon'')])
      else if s = ''{"aud":"http://localhost:8787"}''
        then Some (JObject [(''aud'', JString ''http://localhost:8787'')])
      else if s = ''{"exp":4000,"scope":"localhost:8787"}''
        then Some (JObject [(''exp'', JNumber 4000), (''scope'', JString ''localhost:8787'')])
      else if s = ''{"token":"h.eyJleHAiOjQwMDAsInNjb3BlIjoibG9jYWxob3N0Ojg3ODcifQ.s"}''
        then Some (JObject [(''token'',
                     JString ''h.eyJleHAiOjQwMDAsInNjb3BlIjoibG9jYWxob3N0Ojg3ODcifQ.s'')])
      else if s = ''123'' then Some (JNumber 123)
      else if s = ''null'' then Some JNull
      else None)\<close>

definition holding :: "string \<Rightarrow> client" where
  "holding t = \<lparr> proxyToken = Some ''proxy-token'', token = Some (JString t), retry = Some True \<rparr>"

definition url_fixture :: "string \<Rightarrow> url option" where
  "url_fixture s = (if startsWith s ''https://'' then Some (URL s) else None)"

definition request_fixture :: request where
  "request_fixture =
     \<lparr> req_url = ''https://api.example.com/data'', req_method = ''POST'',
       req_headers = [(''content-type'', ''application/json'')], req_body = VString ''{}'',
       req_redirect = ''follow'' \<rparr>"

definition plain_response :: response where
  "plain_response = \<lparr> resp_ok = True, resp_status = 200, resp_headers = [], resp_body = [] \<rparr>"


text \<open>A transport that answers the first request with one response and every later one
  with another.\<close>

definition first_then :: "response \<Rightarrow> response \<Rightarrow> transport" where
  "first_then r1 r2 k u ob = (if k = 0 then Inr r1 else Inr r2)"


definition env_fixture :: "transport \<Rightarrow> env" where
  "env_fixture tr =
     \<lparr> json_parse = parse_fixture, url_parse = url_fixture, window_origin = None,
       now_check = 0, now_exchange = 1234, global_fetch = tr \<rparr>"

definition access_token_fixture :: string where
  "access_token_fixture = ''h.eyJleHAiOjQwMDAsInNjb3BlIjoibG9jYWxob3N0Ojg3ODcifQ.s''"

definition href_fixture :: string where
  "href_fixture = ''https://api.example.com/data''"

definition proxy_url_fixture :: string where
  "proxy_url_fixture
     = ''https://localhost:8787.bridggy.com/proxy?u=aHR0cHM6Ly9hcGkuZXhhbXBsZS5jb20vZGF0YQ''"

definition headers_fixture :: headers where
  "headers_fixture = [(''gg-x-source'', ''client''), (''gg-x-token'', access_token_fixture)]"



definition proxy_token_fixture :: string where
  "proxy_token_fixture = ''h.eyJhdWQiOiJodHRwOi8vbG9jYWxob3N0Ojg3ODcifQ.s''"

definition token_response :: response where
  \<open>token_response =
     \<lparr> resp_ok = True, resp_status = 200, resp_headers = [],
       resp_body = ''{"token":"h.eyJleHAiOjQwMDAsInNjb3BlIjoibG9jYWxob3N0Ojg3ODcifQ.s"}'' \<rparr>\<close>

definition unauthorized_response :: response where
  "unauthorized_response =
     \<lparr> resp_ok = False, resp_status = 401, resp_headers = [], resp_body = [] \<rparr>"

definition configured_fixture :: client where
  "configured_fixture = configure \<lparr> cfg_token = proxy_token_fixture, cfg_retry = None \<rparr> new_client"

section \<open>The expiry check\<close>

lemma payload_exp100:
  "getTokenPayload parse_fixture (Some (JString ''h.eyJleHAiOjEwMH0.s''))
   = Inr (JObject [(''exp'', JNumber 100)])"
  by code_simp

lemma payload_exp_soon:
  "getTokenPayload parse_fixture (Some (JString ''h.eyJleHAiOiJzb29uIn0.s''))
   = Inr (JObject [(''exp'', JString ''soon'')])"
  by code_simp

lemma payload_no_dot:
  "getTokenPayload parse_fixture (Some (JString ''invalid-token'')) = Inl (Error ''Invalid token'')"
  by code_simp

text \<open>
  C1 (as stated): the expiry check returns true without error when no access credential is
  held; it fails with \<^verbatim>\<open>invalid or malformed token\<close> when a credential is held whose \<^verbatim>\<open>exp\<close>
  is missing or not a number; otherwise it returns true if and only if the current time is
  greater than or equal to \<^verbatim>\<open>exp\<close> in milliseconds minus 60000.

  The last part fails on the boundary. With \<^verbatim>\<open>exp = 100\<close> (seconds) and the current time
  40000 ms, the time equals \<^verbatim>\<open>exp * 1000 - 60000\<close>, and the check returns false: the source
  compares with \<^verbatim>\<open>>\<close>, ``expired if less than a minute before expiration''.
\<close>

theorem isTokenExpired_boundary_counterexample:
  "truthy (token (holding ''h.eyJleHAiOjEwMH0.s'')) \<and>
   getTokenPayload parse_fixture (token (holding ''h.eyJleHAiOjEwMH0.s''))
     = Inr (JObject [(''exp'', JNumber 100)]) \<and>
   (40000 :: int) \<ge> 100 * 1000 - 60000 \<and>
   isTokenExpired parse_fixture 40000 (holding ''h.eyJleHAiOjEwMH0.s'') = Inr False"
  by (simp add: isTokenExpired_def holding_def payload_exp100 get_prop_def truthy_def)

text \<open>
  C1 (amended): the expiry check returns true without error when no access credential is
  held (the field is falsy); it fails with \<^verbatim>\<open>invalid or malformed token\<close> when a credential
  is held that does not decode, or whose decoded \<^verbatim>\<open>exp\<close> is missing or not a number;
  otherwise it returns true if and only if the current time is strictly greater than
  \<^verbatim>\<open>exp\<close> in milliseconds minus 60000. In particular it returns true whenever \<^verbatim>\<open>exp\<close> is at
  most 30 s after now, and false when \<^verbatim>\<open>exp\<close> is 3600 s after now.
\<close>

theorem isTokenExpired_contract:
  "(\<not> truthy (token c) \<longrightarrow> isTokenExpired parse now c = Inr True) \<and>
   (truthy (token c) \<and> getTokenPayload parse (token c) = Inl e \<longrightarrow>
      isTokenExpired parse now c = Inl (Error ''invalid or malformed token'')) \<and>
   (truthy (token c) \<and> getTokenPayload parse (token c) = Inr data \<and>
      (\<forall>n. get_prop data ''exp'' \<noteq> Inr (Some (JNumber n))) \<longrightarrow>
      isTokenExpired parse now c = Inl (Error ''invalid or malformed token'')) \<and>
   (truthy (token c) \<and> getTokenPayload parse (token c) = Inr data \<and>
      get_prop data ''exp'' = Inr (Some (JNumber ex)) \<longrightarrow>
      isTokenExpired parse now c = Inr (ex * 1000 - 60000 < now) \<and>
      (ex * 1000 \<le> now + 30000 \<longrightarrow> isTokenExpired parse now c = Inr True) \<and>
      (ex * 1000 = now + 3600000 \<longrightarrow> isTokenExpired parse now c = Inr False))"
  by (auto simp: isTokenExpired_def split: sum.splits option.splits json.splits)

theorem isTokenExpired_contract_witness:
  "\<not> truthy (token new_client) \<and> isTokenExpired parse_fixture 70000 new_client = Inr True \<and>
   truthy (token (holding ''invalid-token'')) \<and>
   getTokenPayload parse_fixture (token (holding ''invalid-token'')) = Inl (Error ''Invalid token'') \<and>
   isTokenExpired parse_fixture 70000 (holding ''invalid-token'')
     = Inl (Error ''invalid or malformed token'') \<and>
   get_prop (JObject [(''exp'', JString ''soon'')]) ''exp'' = Inr (Some (JString ''soon'')) \<and>
   isTokenExpired parse_fixture 70000 (holding ''h.eyJleHAiOiJzb29uIn0.s'')
     = Inl (Error ''invalid or malformed token'') \<and>
   get_prop (JObject [(''exp'', JNumber 100)]) ''exp'' = Inr (Some (JNumber 100)) \<and>
   isTokenExpired parse_fixture 70000 (holding ''h.eyJleHAiOjEwMH0.s'') = Inr True \<and>
   isTokenExpired parse_fixture (- 3500000) (holding ''h.eyJleHAiOjEwMH0.s'') = Inr False"
proof -
  have t0: "\<not> truthy (token new_client)"
    by (simp add: new_client_def truthy_def)
  have t: "truthy (token (holding ''invalid-token''))"
       "truthy (token (holding ''h.eyJleHAiOiJzb29uIn0.s''))"
       "truthy (token (holding ''h.eyJleHAiOjEwMH0.s''))"
    by (simp_all add: holding_def truthy_def)
  have p1: "getTokenPayload parse_fixture (token (holding ''invalid-token''))
            = Inl (Error ''Invalid token'')"
    by (simp add: holding_def payload_no_dot)
  have p2: "getTokenPayload parse_fixture (token (holding ''h.eyJleHAiOiJzb29uIn0.s''))
            = Inr (JObject [(''exp'', JString ''soon'')])"
    by (simp add: holding_def payload_exp_soon)
  have p3: "getTokenPayload parse_fixture (token (holding ''h.eyJleHAiOjEwMH0.s''))
            = Inr (JObject [(''exp'', JNumber 100)])"
    by (simp add: holding_def payload_exp100)
  have g2: "get_prop (JObject [(''exp'', JString ''soon'')]) ''exp'' = Inr (Some (JString ''soon''))"
    by (simp add: get_prop_def)
  have g3: "get_prop (JObject [(''exp'', JNumber 100)]) ''exp'' = Inr (Some (JNumber 100))"
    by (simp add: get_prop_def)
  have a: "isTokenExpired parse_fixture 70000 new_client = Inr True"
    using isTokenExpired_contract [of new_client parse_fixture 70000] t0 by blast
  have b: "isTokenExpired parse_fixture 70000 (holding ''invalid-token'')
           = Inl (Error ''invalid or malformed token'')"
    using isTokenExpired_contract [of "holding ''invalid-token''" parse_fixture 70000
            "Error ''Invalid token''"] t(1) p1 by blast
  have c: "isTokenExpired parse_fixture 70000 (holding ''h.eyJleHAiOiJzb29uIn0.s'')
           = Inl (Error ''invalid or malformed token'')"
    using isTokenExpired_contract [of "holding ''h.eyJleHAiOiJzb29uIn0.s''" parse_fixture 70000 _
            "JObject [(''exp'', JString ''soon'')]"] t(2) p2 g2 by auto
  have d: "isTokenExpired parse_fixture 70000 (holding ''h.eyJleHAiOjEwMH0.s'') = Inr True"
    using isTokenExpired_contract [of "holding ''h.eyJleHAiOjEwMH0.s''" parse_fixture 70000 _
            "JObject [(''exp'', JNumber 100)]" 100] t(3) p3 g3 by simp
  have e: "isTokenExpired parse_fixture (- 3500000) (holding ''h.eyJleHAiOjEwMH0.s'') = Inr False"
    using isTokenExpired_contract [of "holding ''h.eyJleHAiOjEwMH0.s''" parse_fixture "- 3500000" _
            "JObject [(''exp'', JNumber 100)]" 100] t(3) p3 g3 by simp
  show ?thesis using t0 t p1 g2 g3 a b c d e by simp
qed


section \<open>The claims decoder\<close>

lemma js_split_not_Nil: "js_split sep s \<noteq> []"
  by (induction s) (auto split: list.splits)

lemma js_split_no_sep: "sep \<notin> set s \<Longrightarrow> js_split sep s = [s]"
  by (induction s) auto

lemma js_split_hd: "hd (js_split sep s) = takeWhile (\<lambda>c. c \<noteq> sep) s"
  by (induction s) (auto split: list.splits simp: js_split_not_Nil)

lemma js_split_tl:
  "sep \<in> set s \<Longrightarrow> tl (js_split sep s) = js_split sep (tl (dropWhile (\<lambda>c. c \<noteq> sep) s))"
  by (induction s) (auto split: list.splits simp: js_split_not_Nil)

lemma js_split_second:
  "js_index (js_split sep s) 1 =
     (if sep \<in> set s
      then Some (takeWhile (\<lambda>c. c \<noteq> sep) (tl (dropWhile (\<lambda>c. c \<noteq> sep) s)))
      else None)"
proof (cases "sep \<in> set s")
  case False
  then show ?thesis by (simp add: js_split_no_sep js_index_def)
next
  case True
  obtain x xs where x: "js_split sep s = x # xs"
    using js_split_not_Nil [of sep s] by (cases "js_split sep s") auto
  obtain y ys where y: "js_split sep (tl (dropWhile (\<lambda>c. c \<noteq> sep) s)) = y # ys"
    using js_split_not_Nil [of sep "tl (dropWhile (\<lambda>c. c \<noteq> sep) s)"]
    by (cases "js_split sep (tl (dropWhile (\<lambda>c. c \<noteq> sep) s))") auto
  from js_split_tl [OF True] x y have xs: "xs = y # ys" by simp
  from js_split_hd [of sep "tl (dropWhile (\<lambda>c. c \<noteq> sep) s)"] y
  have "y = takeWhile (\<lambda>c. c \<noteq> sep) (tl (dropWhile (\<lambda>c. c \<noteq> sep) s))" by simp
  with True x xs show ?thesis by (simp add: js_index_def)
qed

lemma truthy_str_iff: "truthy_str v \<longleftrightarrow> (\<exists>s. v = Some s \<and> s \<noteq> [])"
  by (cases v) (simp_all add: truthy_str_def truthy_def)

text \<open>
  C7: for every token string, the decoder takes the second of the pieces separated by
  dots and fails with \<^verbatim>\<open>Invalid token\<close> when there is none (no dot in the token) or when it
  is empty; it replaces \<^verbatim>\<open>-\<close> by \<^verbatim>\<open>+\<close> and \<^verbatim>\<open>_\<close> by \<^verbatim>\<open>/\<close>, decodes base64 and parses the
  result; when the decoding or the parsing fails, the decoder fails with that error. It
  returns claims exactly when the piece is there, decodes, and parses: never for a token
  without a dot or with a middle piece that is not JSON.
\<close>

theorem getTokenPayload_decodes:
  "js_index (js_split (CHR ''.'') t) 1
     = (if CHR ''.'' \<in> set t then Some (second_segment t) else None) \<and>
   (CHR ''.'' \<notin> set t \<longrightarrow> getTokenPayload parse (Some (JString t)) = Inl (Error ''Invalid token'')) \<and>
   (second_segment t = [] \<longrightarrow> getTokenPayload parse (Some (JString t)) = Inl (Error ''Invalid token'')) \<and>
   (CHR ''.'' \<in> set t \<and> second_segment t \<noteq> [] \<and> atob (b64url_to_b64 (second_segment t)) = Inl e \<longrightarrow>
      getTokenPayload parse (Some (JString t)) = Inl e) \<and>
   (CHR ''.'' \<in> set t \<and> second_segment t \<noteq> [] \<and> atob (b64url_to_b64 (second_segment t)) = Inr p \<and>
      parse p = None \<longrightarrow>
      getTokenPayload parse (Some (JString t)) = Inl SyntaxError) \<and>
   (getTokenPayload parse (Some (JString t)) = Inr v \<longleftrightarrow>
      CHR ''.'' \<in> set t \<and> second_segment t \<noteq> [] \<and>
      (\<exists>p. atob (b64url_to_b64 (second_segment t)) = Inr p \<and> parse p = Some v))"
  by (auto simp: getTokenPayload_def js_split_second [of _ _, unfolded One_nat_def] second_segment_def
        b64url_to_b64_def truthy_str_iff Let_def split: sum.splits option.splits)


lemma seg_examples:
  "second_segment ''a..b'' = []"
  "second_segment ''h.@@@.s'' = ''@@@''"
  "second_segment ''h.bm90IGpzb24.s'' = ''bm90IGpzb24''"
  "second_segment ''h.eyJleHAiOjEwMH0.s'' = ''eyJleHAiOjEwMH0''"
  by (simp_all add: second_segment_def)

lemma atob_examples:
  "atob (b64url_to_b64 ''@@@'') = Inl InvalidCharacterError"
  "atob (b64url_to_b64 ''bm90IGpzb24'') = Inr ''not json''"
  \<open>atob (b64url_to_b64 ''eyJleHAiOjEwMH0'') = Inr ''{"exp":100}''\<close>
  by code_simp+

lemma parse_fixture_examples:
  "parse_fixture ''not json'' = None"
  \<open>parse_fixture ''{"exp":100}'' = Some (JObject [(''exp'', JNumber 100)])\<close>
  by (simp_all add: parse_fixture_def)

theorem getTokenPayload_decodes_witness:
  \<open>CHR ''.'' \<notin> set ''invalid-token'' \<and>
   getTokenPayload parse_fixture (Some (JString ''invalid-token'')) = Inl (Error ''Invalid token'') \<and>
   second_segment ''a..b'' = [] \<and>
   getTokenPayload parse_fixture (Some (JString ''a..b'')) = Inl (Error ''Invalid token'') \<and>
   atob (b64url_to_b64 (second_segment ''h.@@@.s'')) = Inl InvalidCharacterError \<and>
   getTokenPayload parse_fixture (Some (JString ''h.@@@.s'')) = Inl InvalidCharacterError \<and>
   atob (b64url_to_b64 (second_segment ''h.bm90IGpzb24.s'')) = Inr ''not json'' \<and>
   parse_fixture ''not json'' = None \<and>
   getTokenPayload parse_fixture (Some (JString ''h.bm90IGpzb24.s'')) = Inl SyntaxError \<and>
   atob (b64url_to_b64 (second_segment ''h.eyJleHAiOjEwMH0.s'')) = Inr ''{"exp":100}'' \<and>
   getTokenPayload parse_fixture (Some (JString ''h.eyJleHAiOjEwMH0.s''))
     = Inr (JObject [(''exp'', JNumber 100)])\<close>
proof -
  note t = getTokenPayload_decodes [where parse = parse_fixture]
  have d: "CHR ''.'' \<notin> set ''invalid-token''" "CHR ''.'' \<in> set ''h.@@@.s''"
    "CHR ''.'' \<in> set ''h.bm90IGpzb24.s''" "CHR ''.'' \<in> set ''h.eyJleHAiOjEwMH0.s''"
    by simp_all
  have a: "getTokenPayload parse_fixture (Some (JString ''invalid-token'')) = Inl (Error ''Invalid token'')"
    using t [of "''invalid-token''"] d(1) by blast
  have b: "getTokenPayload parse_fixture (Some (JString ''a..b'')) = Inl (Error ''Invalid token'')"
    using t [of "''a..b''"] seg_examples(1) by blast
  have c: "getTokenPayload parse_fixture (Some (JString ''h.@@@.s'')) = Inl InvalidCharacterError"
    using t [of "''h.@@@.s''" InvalidCharacterError] d(2) seg_examples(2) atob_examples(1) by simp
  have e: "getTokenPayload parse_fixture (Some (JString ''h.bm90IGpzb24.s'')) = Inl SyntaxError"
    using t [of "''h.bm90IGpzb24.s''" _ "''not json''"] d(3) seg_examples(3) atob_examples(2)
      parse_fixture_examples(1) by simp
  have f: "getTokenPayload parse_fixture (Some (JString ''h.eyJleHAiOjEwMH0.s''))
            = Inr (JObject [(''exp'', JNumber 100)])"
    using t [of "''h.eyJleHAiOjEwMH0.s''" _ _ "JObject [(''exp'', JNumber 100)]"] d(4)
      seg_examples(4) atob_examples(3) parse_fixture_examples(2) by simp
  show ?thesis
    using a b c e f d(1) seg_examples atob_examples parse_fixture_examples by simp
qed


section \<open>Input normalisation\<close>

text \<open>
  C9: input normalisation resolves the input to a URL. A string that the URL parser
  rejects fails with a \<^verbatim>\<open>TypeError\<close> whose message quotes the string; a URL value is used as
  it is; a \<^verbatim>\<open>Request\<close> contributes the URL parsed from its own \<^verbatim>\<open>url\<close>; any other input
  fails with the \<^verbatim>\<open>TypeError\<close> \<^verbatim>\<open>Unsupported input type\<close>.
\<close>

theorem getUrl_normalises:
  "(up s = None \<longrightarrow>
      getUrl up (InString s)
        = Inl (TypeError (''input string must be an absolute URL, got '' @ [CHR 0x22] @ s @ [CHR 0x22]))) \<and>
   (up s = Some u \<longrightarrow> getUrl up (InString s) = Inr u) \<and>
   getUrl up (InURL v) = Inr v \<and>
   (up (req_url r) = Some w \<longrightarrow> getUrl up (InRequest r) = Inr w) \<and>
   getUrl up InOther = Inl (TypeError ''Unsupported input type'')"
  by (simp add: getUrl_def)

theorem getUrl_normalises_witness:
  \<open>url_fixture ''/data'' = None \<and>
   getUrl url_fixture (InString ''/data'')
     = Inl (TypeError ''input string must be an absolute URL, got "/data"'') \<and>
   url_fixture ''https://api.example.com/data'' = Some (URL ''https://api.example.com/data'') \<and>
   getUrl url_fixture (InString ''https://api.example.com/data'')
     = Inr (URL ''https://api.example.com/data'') \<and>
   url_fixture (req_url request_fixture) = Some (URL ''https://api.example.com/data'') \<and>
   getUrl url_fixture (InRequest request_fixture) = Inr (URL ''https://api.example.com/data'')\<close>
proof -
  have a: "url_fixture ''/data'' = None"
    and b: "url_fixture ''https://api.example.com/data'' = Some (URL ''https://api.example.com/data'')"
    and c: "url_fixture (req_url request_fixture) = Some (URL ''https://api.example.com/data'')"
    by (simp_all add: url_fixture_def startsWith_def request_fixture_def)
  note t = getUrl_normalises [where up = url_fixture]
  have "getUrl url_fixture (InString ''/data'')
          = Inl (TypeError (''input string must be an absolute URL, got '' @ [CHR 0x22] @ ''/data'' @ [CHR 0x22]))"
    using t [of "''/data''"] a by blast
  moreover have "getUrl url_fixture (InString ''https://api.example.com/data'')
          = Inr (URL ''https://api.example.com/data'')"
    using t [of "''https://api.example.com/data''" "URL ''https://api.example.com/data''"] b by blast
  moreover have "getUrl url_fixture (InRequest request_fixture) = Inr (URL ''https://api.example.com/data'')"
    using t [of _ _ _ request_fixture "URL ''https://api.example.com/data''"] c by blast
  ultimately show ?thesis using a b c by simp
qed

section \<open>The precondition of fetch\<close>

text \<open>
  C8: a call of \<^verbatim>\<open>fetch\<close> on a client whose long-lived credential was never set fails
  with \<^verbatim>\<open>Config not provided\<close>; the client is unchanged and there is no event: no call
  of the transport, for an exchange or for a proxied request.
\<close>

theorem fetch_before_configure:
  "proxyToken c = None \<Longrightarrow> fetch ev c i init = (Inl (Error ''Config not provided''), c, [])"
  by (simp add: fetch_def truthy_str_def truthy_def)

theorem fetch_before_configure_witness:
  "proxyToken new_client = None \<and>
   fetch (env_fixture (first_then plain_response plain_response)) new_client
       (InString ''https://api.example.com/data'') None
     = (Inl (Error ''Config not provided''), new_client, [])"
proof -
  have h: "proxyToken new_client = None" by (simp add: new_client_def)
  from fetch_before_configure [OF h] h show ?thesis by blast
qed

text \<open>
  C10: after \<^verbatim>\<open>configure\<close> with the empty string as credential, the stored credential is
  the empty string, and \<^verbatim>\<open>fetch\<close> fails with \<^verbatim>\<open>Config not provided\<close> all the same, with no
  event: the precondition is that the stored credential is a non-empty string.
\<close>

theorem fetch_after_empty_configure:
  "proxyToken (configure \<lparr> cfg_token = [], cfg_retry = r \<rparr> c) = Some [] \<and>
   fetch ev (configure \<lparr> cfg_token = [], cfg_retry = r \<rparr> c) i init
     = (Inl (Error ''Config not provided''), configure \<lparr> cfg_token = [], cfg_retry = r \<rparr> c, [])"
  by (simp add: fetch_def configure_def truthy_str_def truthy_def)

section \<open>The outgoing options\<close>

text \<open>
  C5 says that for a \<^verbatim>\<open>Request\<close> input the outgoing method, body and redirect policy are
  those of the \<^verbatim>\<open>Request\<close>, not those of \<open>init\<close>. The code chooses them so in the first
  three properties of the literal, and then spreads \<open>restInit\<close> over them; \<open>restInit\<close>, which
  the source's comment calls the ``other init properties'', was made by taking only
  \<^verbatim>\<open>headers\<close> out of \<open>init\<close>, so it still holds \<^verbatim>\<open>method\<close>, \<^verbatim>\<open>body\<close> and \<^verbatim>\<open>redirect\<close>.
  For a \<^verbatim>\<open>Request\<close> with method \<^verbatim>\<open>POST\<close> and an \<open>init\<close> of \<^verbatim>\<open>{ method: 'GET' }\<close> the outgoing
  method is \<^verbatim>\<open>GET\<close>.
\<close>

theorem assemble_options_init_overrides_request:
  "req_method request_fixture = ''POST'' \<and>
   obj_get (assemble_options (InRequest request_fixture) (Some [''method'' \<mapsto> VString ''GET'']) hs)
     ''method'' = VString ''GET''"
  by (simp add: assemble_options_def obj_get_def request_fixture_def map_add_def)

section \<open>The outgoing headers\<close>

text \<open>The test of the repository (``should remove NonProxyHeaders''): \<open>init.headers\<close> is a
  \<^verbatim>\<open>Headers\<close> object with \<^verbatim>\<open>Content-Type\<close>, \<^verbatim>\<open>User-Agent\<close>, \<^verbatim>\<open>Cookie\<close> and \<^verbatim>\<open>X-Custom\<close>. The two
  privacy headers are removed and the other two are kept, as the test expects: no two of
  the removed names are neighbours in the sorted iteration.\<close>

lemma assemble_headers_repository_test:
  "assemble_headers None (Some (JString ''tok'')) (InString ''https://api.example.com/data'')
     (Some [''headers'' \<mapsto> VHeaders (sort_and_combine [(''Content-Type'', ''application/json''),
        (''User-Agent'', ''test-agent''), (''Cookie'', ''session=123''),
        (''X-Custom'', ''custom-value'')])])
   = Inr [(''content-type'', ''application/json''), (''x-custom'', ''custom-value''),
          (''gg-x-source'', ''client''), (''gg-x-token'', ''tok'')]"
  by code_simp

text \<open>
  C3 says that after header assembly every header of the deny-list, and every header whose
  name begins with \<^verbatim>\<open>sec-\<close>, is absent. The code deletes such a header from inside the
  \<^verbatim>\<open>forEach\<close> over the same object. The iteration goes by index over the sorted names and
  reads them again after each callback, so after a deletion the name that followed the
  deleted one moves to the index just visited and is never looked at. With the headers
  \<^verbatim>\<open>Connection: close\<close> and \<^verbatim>\<open>Cookie: a=b\<close> the sorted names are \<^verbatim>\<open>connection\<close>, \<^verbatim>\<open>cookie\<close>,
  \<^verbatim>\<open>gg-x-source\<close>, \<^verbatim>\<open>gg-x-token\<close>; \<^verbatim>\<open>connection\<close> is deleted at index 0, index 1 is then
  \<^verbatim>\<open>gg-x-source\<close>, and \<^verbatim>\<open>Cookie\<close> stays in the outgoing headers.
\<close>

theorem assemble_headers_leaks_cookie:
  "assemble_headers None (Some (JString ''tok'')) (InString ''https://api.example.com/data'')
     (Some [''headers'' \<mapsto> VHeaders [(''Connection'', ''close''), (''Cookie'', ''a=b'')]])
   = Inr [(''Cookie'', ''a=b''), (''gg-x-source'', ''client''), (''gg-x-token'', ''tok'')]"
  by code_simp


section \<open>The proxy URL and the round trip of its parameter\<close>

lemma char_eq_nat: "(c = d) = ((of_char c :: nat) = of_char d)"
  by simp

lemma of_char_b64_char:
  "n < 64 \<Longrightarrow> (of_char (b64_char n) :: nat) =
     (if n < 26 then 65 + n else if n < 52 then 71 + n else if n < 62 then n - 4
      else if n = 62 then 43 else 47)"
  by (auto simp: b64_char_def)

lemma b64_index_b64_char: "n < 64 \<Longrightarrow> b64_index (b64_char n) = Some n"
  by (auto simp: b64_index_def Let_def of_char_b64_char char_eq_nat)

lemma b64_char_plain:
  assumes "n < 64"
  shows "b64_char n \<noteq> CHR ''=''" "b64_char n \<noteq> CHR ''-''" "b64_char n \<noteq> CHR ''_''"
    "\<not> ascii_whitespace (b64_char n)"
  using assms by (auto simp: char_eq_nat of_char_b64_char ascii_whitespace_def split: if_splits)

lemma div_bound: "(a::nat) < 256 \<Longrightarrow> a div 4 < 64" "(a::nat) < 256 \<Longrightarrow> a div 16 < 16"
  "(a::nat) < 256 \<Longrightarrow> a div 64 < 4"
  by (rule less_mult_imp_div_less, simp)+

lemma pack_div:
  "x < k \<Longrightarrow> (m * k + x) div k = (m::nat)"
  "x < k \<Longrightarrow> (m * k + x) mod k = (x::nat)"
  by simp_all

lemma pack_bound: "(m::nat) < j \<Longrightarrow> x < k \<Longrightarrow> m * k + x < j * k"
proof -
  assume a: "m < j" "x < k"
  then have "m * k + x < m * k + k" by simp
  also have "\<dots> = Suc m * k" by simp
  also from a have "\<dots> \<le> j * k" by (intro mult_le_mono1) simp
  finally show ?thesis .
qed

lemma sext_bounds:
  fixes a b c :: nat
  shows "b < 256 \<Longrightarrow> (a mod 4) * 16 + b div 16 < 64"
    "c < 256 \<Longrightarrow> (b mod 16) * 4 + c div 64 < 64"
    "(b mod 16) * 4 < 64" "(a mod 4) * 16 < 64"
proof -
  show "b < 256 \<Longrightarrow> (a mod 4) * 16 + b div 16 < 64"
    using pack_bound [of "a mod 4" 4 "b div 16" 16] div_bound(2) [of b] by simp
  show "c < 256 \<Longrightarrow> (b mod 16) * 4 + c div 64 < 64"
    using pack_bound [of "b mod 16" 16 "c div 64" 4] div_bound(3) [of c] by simp
  show "(b mod 16) * 4 < 64"
    using pack_bound [of "b mod 16" 16 0 4] by simp
  show "(a mod 4) * 16 < 64"
    using pack_bound [of "a mod 4" 4 0 16] by simp
qed

lemma group3:
  fixes a b c :: nat
  assumes "b < 256" "c < 256"
  shows "a div 4 * 4 + ((a mod 4) * 16 + b div 16) div 16 = a"
    "((a mod 4) * 16 + b div 16) mod 16 * 16 + ((b mod 16) * 4 + c div 64) div 4 = b"
    "((b mod 16) * 4 + c div 64) mod 4 * 64 + c mod 64 = c"
  using div_bound(2) [OF assms(1)] div_bound(3) [OF assms(2)]
  by (simp_all add: pack_div)

lemma group2:
  fixes a b :: nat
  assumes "b < 256"
  shows "((a mod 4) * 16 + b div 16) mod 16 * 16 + ((b mod 16) * 4) div 4 = b"
  using div_bound(2) [OF assms] by (simp add: pack_div)

lemma sextets_bound:
  "list_all (\<lambda>b. b < 256) bs \<Longrightarrow> list_all (\<lambda>s. s < 64) (bytes_to_sextets bs)"
  by (induction bs rule: bytes_to_sextets.induct) (simp_all add: sext_bounds div_bound)

lemma sextets_roundtrip:
  "list_all (\<lambda>b. b < 256) bs \<Longrightarrow> sextets_to_bytes (bytes_to_sextets bs) = bs"
  by (induction bs rule: bytes_to_sextets.induct) (simp_all add: div_bound)

lemma length_sextets_mod: "length (bytes_to_sextets bs) mod 4 \<noteq> 1"
  by (induction bs rule: bytes_to_sextets.induct) simp_all

lemma mod3_Suc3: "Suc (Suc (Suc n)) mod 3 = n mod 3"
  by presburger

lemma bytes_to_b64_sextets:
  "bytes_to_b64 bs = map b64_char (bytes_to_sextets bs)
                     @ replicate ((3 - length bs mod 3) mod 3) (CHR ''='')"
proof (induction bs rule: bytes_to_sextets.induct)
  case (1 a b c rest)
  then show ?case by (simp add: mod3_Suc3)
next
  case (2 a b)
  have "(3 - length [a, b] mod 3) mod 3 = Suc 0" by simp
  then show ?case by simp
next
  case (3 a)
  have "(3 - length [a] mod 3) mod 3 = Suc (Suc 0)" by simp
  then show ?case by (simp add: numeral_2_eq_2)
next
  case 4
  show ?case by simp
qed

lemma utf8_bytes: "list_all (\<lambda>b. b < 256) (utf8_encode s)"
proof (induction s)
  case Nil
  show ?case by (simp add: utf8_encode_def)
next
  case (Cons c s)
  have k: "(of_char c :: nat) < 256" by simp
  have "(of_char c :: nat) div 64 < 4" using div_bound(3) [OF k] .
  then have "192 + (of_char c :: nat) div 64 < 256" by simp
  moreover have "128 + (of_char c :: nat) mod 64 < 256"
    using mod_less_divisor [of 64 "of_char c"] by simp
  ultimately show ?case using Cons by (simp add: utf8_encode_def Let_def)
qed

lemma of_char_char_of_bytes:
  "list_all (\<lambda>b. b < 256) bs \<Longrightarrow> map of_char (map char_of bs) = (bs :: nat list)"
  by (induction bs) simp_all

lemma btoa_bin: "btoa (map char_of (utf8_encode s)) = bytes_to_b64 (utf8_encode s)"
  by (simp only: btoa_def of_char_char_of_bytes [OF utf8_bytes])

lemma b64_char_62_63:
  "n < 64 \<Longrightarrow> b64_char n = CHR ''+'' \<longleftrightarrow> n = 62"
  "n < 64 \<Longrightarrow> b64_char n = CHR ''/'' \<longleftrightarrow> n = 63"
  by (auto simp: char_eq_nat of_char_b64_char split: if_splits)

lemma b64_char_last: "b64_char 62 = CHR ''+''" "b64_char 63 = CHR ''/''"
  by (simp_all add: b64_char_def)

lemmas b64_char_plain_sym = b64_char_plain(1-3) [THEN not_sym]

lemma replace_to_url:
  "list_all (\<lambda>s. s < 64) sx \<Longrightarrow>
   replace_all (CHR ''/'') (CHR ''_'') (replace_all (CHR ''+'') (CHR ''-'') (map b64_char sx))
     = map b64url_char sx"
  by (induction sx) (auto simp: replace_all_def b64url_char_def b64_char_62_63)

lemma replace_from_url:
  "list_all (\<lambda>s. s < 64) sx \<Longrightarrow> b64url_to_b64 (map b64url_char sx) = map b64_char sx"
  by (induction sx)
     (auto simp: b64url_to_b64_def replace_all_def b64url_char_def b64_char_plain b64_char_62_63
        b64_char_last)

lemma replace_all_append: "replace_all a b (xs @ ys) = replace_all a b xs @ replace_all a b ys"
  by (simp add: replace_all_def)

lemma replace_all_pad:
  "a \<noteq> CHR ''='' \<Longrightarrow> replace_all a b (replicate p (CHR ''='')) = replicate p (CHR ''='')"
  by (simp add: replace_all_def)

lemma b64url_char_plain:
  "n < 64 \<Longrightarrow> b64url_char n \<noteq> CHR ''=''" "n < 64 \<Longrightarrow> CHR ''='' \<noteq> b64url_char n"
  by (auto simp: b64url_char_def b64_char_plain b64_char_plain_sym)

lemma strip_trailing_pad:
  assumes "CHR ''='' \<notin> set xs"
  shows "strip_trailing_eq (xs @ replicate p (CHR ''='')) = xs"
proof -
  have "dropWhile (\<lambda>c. c = CHR ''='') (replicate p (CHR ''='') @ rev xs)
        = dropWhile (\<lambda>c. c = CHR ''='') (rev xs)"
    by (induction p) simp_all
  also have "\<dots> = rev xs"
    using assms by (cases "rev xs") (auto simp: dropWhile_eq_self_iff)
  finally show ?thesis by (simp add: strip_trailing_eq_def)
qed

lemma b64urlEncode_sextets:
  "b64urlEncode h = map b64url_char (bytes_to_sextets (utf8_encode h))"
proof -
  let ?sx = "bytes_to_sextets (utf8_encode h)"
  have sx: "list_all (\<lambda>s. s < 64) ?sx" by (rule sextets_bound [OF utf8_bytes])
  have noeq: "CHR ''='' \<notin> set (map b64url_char ?sx)"
    using sx by (auto simp: list_all_iff b64url_char_plain)
  have "b64urlEncode h
        = strip_trailing_eq (replace_all (CHR ''/'') (CHR ''_'')
            (replace_all (CHR ''+'') (CHR ''-'') (bytes_to_b64 (utf8_encode h))))"
    by (simp only: b64urlEncode_def Let_def btoa_bin)
  also have "\<dots> = strip_trailing_eq (map b64url_char ?sx
                @ replicate ((3 - length (utf8_encode h) mod 3) mod 3) (CHR ''=''))"
    by (simp only: bytes_to_b64_sextets [of "utf8_encode h"] replace_all_append replace_to_url [OF sx])
       (simp add: replace_all_pad)
  also have "\<dots> = map b64url_char ?sx" by (rule strip_trailing_pad [OF noeq])
  finally show ?thesis .
qed

lemma strip_padding_id: "CHR ''='' \<notin> set s \<Longrightarrow> strip_padding s = s"
proof -
  assume a: "CHR ''='' \<notin> set s"
  then have "CHR ''='' \<notin> set (rev s)" by simp
  then show ?thesis
    by (cases "rev s") (auto simp: strip_padding_def split: list.splits)
qed

lemma atob_sextets:
  assumes sx: "list_all (\<lambda>s. s < 64) sx" and len: "length sx mod 4 \<noteq> 1"
  shows "atob (map b64_char sx) = Inr (map char_of (sextets_to_bytes sx))"
proof -
  have ws: "filter (\<lambda>c. \<not> ascii_whitespace c) (map b64_char sx) = map b64_char sx"
    using sx by (auto simp: list_all_iff b64_char_plain filter_id_conv)
  have noeq: "CHR ''='' \<notin> set (map b64_char sx)"
    using sx by (auto simp: list_all_iff b64_char_plain_sym)
  have idx: "map (\<lambda>c. the (b64_index c)) (map b64_char sx) = sx"
    using sx by (induction sx) (simp_all add: b64_index_b64_char)
  have ok: "\<not> list_ex (\<lambda>c. b64_index c = None) (map b64_char sx)"
    using sx by (auto simp: list_ex_iff list_all_iff b64_index_b64_char)
  show ?thesis
    unfolding atob_def Let_def ws
    using len ok idx by (simp add: strip_padding_id [OF noeq])
qed

lemma atob_b64urlEncode:
  "atob (b64url_to_b64 (b64urlEncode h)) = Inr (map char_of (utf8_encode h))"
proof -
  let ?sx = "bytes_to_sextets (utf8_encode h)"
  have sx: "list_all (\<lambda>s. s < 64) ?sx" by (rule sextets_bound [OF utf8_bytes])
  have "atob (b64url_to_b64 (b64urlEncode h)) = atob (map b64_char ?sx)"
    by (simp only: b64urlEncode_sextets replace_from_url [OF sx])
  also have "\<dots> = Inr (map char_of (sextets_to_bytes ?sx))"
    by (rule atob_sextets [OF sx length_sextets_mod])
  also have "\<dots> = Inr (map char_of (utf8_encode h))"
    by (simp only: sextets_roundtrip [OF utf8_bytes])
  finally show ?thesis .
qed

lemma utf8_roundtrip: "utf8_decode (map char_of (utf8_encode s)) = s"
proof (induction s)
  case Nil
  show ?case by (simp add: utf8_encode_def)
next
  case (Cons c s)
  let ?k = "of_char c :: nat"
  have enc: "utf8_encode (c # s)
             = (if ?k < 128 then [?k] else [192 + ?k div 64, 128 + ?k mod 64]) @ utf8_encode s"
    by (simp add: utf8_encode_def Let_def)
  show ?case
  proof (cases "?k < 128")
    case True
    have "utf8_decode (c # map char_of (utf8_encode s)) = c # utf8_decode (map char_of (utf8_encode s))"
      using True by (cases "map char_of (utf8_encode s)") simp_all
    with True Cons enc show ?thesis by simp
  next
    case False
    have k: "?k < 256" by simp
    have d: "?k div 64 < 4" using div_bound(3) [OF k] .
    have m: "?k mod 64 < 64" by simp
    have b1: "(of_char (char_of (192 + ?k div 64) :: char) :: nat) = 192 + ?k div 64"
      using d by simp
    have b2: "(of_char (char_of (128 + ?k mod 64) :: char) :: nat) = 128 + ?k mod 64"
      using m by simp
    have "char_of ((192 + ?k div 64 - 192) * 64 + (128 + ?k mod 64 - 128)) = c"
      by simp
    with False Cons enc b1 b2 show ?thesis by simp
  qed
qed

lemma url_safe_b64url_char: "n < 64 \<Longrightarrow> url_safe (b64url_char n)"
  by (auto simp: url_safe_def b64url_char_def Let_def of_char_b64_char)

lemma url_safe_b64urlEncode: "list_all url_safe (b64urlEncode h)"
proof -
  have "list_all (\<lambda>s. s < 64) (bytes_to_sextets (utf8_encode h))"
    by (rule sextets_bound [OF utf8_bytes])
  then show ?thesis
    by (auto simp: b64urlEncode_sextets list_all_iff url_safe_b64url_char)
qed

lemma b64urlEncode_unfolded:
  "b64urlEncode h
   = strip_trailing_eq (replace_all (CHR ''/'') (CHR ''_'')
       (replace_all (CHR ''+'') (CHR ''-'') (bytes_to_b64 (utf8_encode h))))"
  by (simp only: b64urlEncode_def Let_def btoa_bin)

lemma drop_prefix: "drop (length xs) (xs @ ys) = ys"
  by simp

lemma build_request_url:
  assumes "build_request ev c i init = Inr (purl, req)"
  shows "\<exists>u payload scope s.
           getUrl (url_parse ev) i = Inr u \<and>
           getTokenPayload (json_parse ev) (token c) = Inr payload \<and>
           get_prop payload ''scope'' = Inr scope \<and> js_string scope = Inr s \<and>
           purl = proxy_url s (href u)"
  using assms by (auto simp: build_request_def split: sum.splits)

text \<open>
  C4: for every destination \<open>h\<close> (the href of the normalised URL) and every scope string, the
  proxy URL is \<^verbatim>\<open>https://{scope}.bridggy.com/proxy?u=\<close> followed by \<open>b64urlEncode h\<close>; that
  value is the standard base64 of the UTF-8 bytes of \<open>h\<close> with \<^verbatim>\<open>+\<close> replaced by \<^verbatim>\<open>-\<close>, \<^verbatim>\<open>/\<close>
  by \<^verbatim>\<open>_\<close> and the \<^verbatim>\<open>=\<close> at the end removed, so it has only letters, digits, \<^verbatim>\<open>-\<close> and \<^verbatim>\<open>_\<close>;
  the platform's \<^verbatim>\<open>atob\<close> after the reverse replacement gives back the UTF-8 bytes, and the
  reverse transform gives back \<open>h\<close> itself, whatever characters \<open>h\<close> has. Whenever
  \<^verbatim>\<open>fetch\<close> builds a request, its URL has that form for the scope claim of the held access
  credential and the href of the normalised input, and what follows \<^verbatim>\<open>u=\<close> decodes to that
  href.
\<close>

theorem proxy_url_roundtrip:
  "proxy_url s h = ''https://'' @ s @ ''.bridggy.com/proxy?u='' @ b64urlEncode h \<and>
   b64urlEncode h
     = strip_trailing_eq (replace_all (CHR ''/'') (CHR ''_'')
         (replace_all (CHR ''+'') (CHR ''-'') (bytes_to_b64 (utf8_encode h)))) \<and>
   list_all url_safe (b64urlEncode h) \<and>
   atob (b64url_to_b64 (b64urlEncode h)) = Inr (map char_of (utf8_encode h)) \<and>
   b64urlDecode (b64urlEncode h) = Inr h \<and>
   (build_request ev c i init = Inr (purl, req) \<longrightarrow>
      (\<exists>u payload scope sc.
         getUrl (url_parse ev) i = Inr u \<and>
         getTokenPayload (json_parse ev) (token c) = Inr payload \<and>
         get_prop payload ''scope'' = Inr scope \<and> js_string scope = Inr sc \<and>
         purl = ''https://'' @ sc @ ''.bridggy.com/proxy?u='' @ b64urlEncode (href u) \<and>
         b64urlDecode (drop (length (''https://'' @ sc @ ''.bridggy.com/proxy?u='')) purl)
           = Inr (href u)))"
proof -
  have rt: "\<And>x. b64urlDecode (b64urlEncode x) = Inr x"
    by (simp add: b64urlDecode_def atob_b64urlEncode utf8_roundtrip)
  have "build_request ev c i init = Inr (purl, req) \<longrightarrow>
      (\<exists>u payload scope sc.
         getUrl (url_parse ev) i = Inr u \<and>
         getTokenPayload (json_parse ev) (token c) = Inr payload \<and>
         get_prop payload ''scope'' = Inr scope \<and> js_string scope = Inr sc \<and>
         purl = ''https://'' @ sc @ ''.bridggy.com/proxy?u='' @ b64urlEncode (href u) \<and>
         b64urlDecode (drop (length (''https://'' @ sc @ ''.bridggy.com/proxy?u='')) purl)
           = Inr (href u))"
  proof
    assume "build_request ev c i init = Inr (purl, req)"
    from build_request_url [OF this] obtain u payload scope sc where
      *: "getUrl (url_parse ev) i = Inr u"
         "getTokenPayload (json_parse ev) (token c) = Inr payload"
         "get_prop payload ''scope'' = Inr scope" "js_string scope = Inr sc"
         "purl = proxy_url sc (href u)"
      by blast
    have "purl = (''https://'' @ sc @ ''.bridggy.com/proxy?u='') @ b64urlEncode (href u)"
      using *(5) by (simp add: proxy_url_def)
    then have "drop (length (''https://'' @ sc @ ''.bridggy.com/proxy?u='')) purl = b64urlEncode (href u)"
      by (simp only: drop_prefix)
    with * rt show "\<exists>u payload scope sc.
         getUrl (url_parse ev) i = Inr u \<and>
         getTokenPayload (json_parse ev) (token c) = Inr payload \<and>
         get_prop payload ''scope'' = Inr scope \<and> js_string scope = Inr sc \<and>
         purl = ''https://'' @ sc @ ''.bridggy.com/proxy?u='' @ b64urlEncode (href u) \<and>
         b64urlDecode (drop (length (''https://'' @ sc @ ''.bridggy.com/proxy?u='')) purl)
           = Inr (href u)"
      by (auto simp: proxy_url_def)
  qed
  then show ?thesis
    using rt url_safe_b64urlEncode b64urlEncode_unfolded atob_b64urlEncode
    by (simp add: proxy_url_def)
qed

lemma payload_access:
  "getTokenPayload parse_fixture (Some (JString access_token_fixture))
   = Inr (JObject [(''exp'', JNumber 4000), (''scope'', JString ''localhost:8787'')])"
  by code_simp



lemma assemble_headers_fixture:
  "assemble_headers None (Some (JString access_token_fixture)) (InString href_fixture) None
   = Inr headers_fixture"
  by code_simp

lemma assemble_headers_no_init_headers:
  "init_get init ''headers'' = VUndefined \<Longrightarrow>
   assemble_headers og t (InString u) init = assemble_headers og t (InString u) None"
  by (simp add: assemble_headers_def init_get_def)

lemma proxy_url_fixture_eq: "proxy_url ''localhost:8787'' href_fixture = proxy_url_fixture"
  by code_simp

lemma build_request_fixture:
  assumes "init_get init ''headers'' = VUndefined"
    and "token c = Some (JString access_token_fixture)"
  shows "build_request (env_fixture tr) c (InString href_fixture) init
         = Inr (proxy_url_fixture, assemble_options (InString href_fixture) init headers_fixture)"
proof -
  have u: "getUrl url_fixture (InString href_fixture) = Inr (URL href_fixture)"
    by (simp add: getUrl_def url_fixture_def href_fixture_def startsWith_def)
  have s: "js_string (Some (JString ''localhost:8787'')) = Inr ''localhost:8787''"
    by (simp add: js_string_def)
  show ?thesis
    by (simp add: build_request_def env_fixture_def u assms(2) payload_access get_prop_def s
          assemble_headers_no_init_headers [OF assms(1)] assemble_headers_fixture
          proxy_url_fixture_eq)
qed



lemma first_then_facts:
  "first_then r1 r2 0 u ob = Inr r1" "first_then r1 r2 (Suc k) u ob = Inr r2"
  by (simp_all add: first_then_def)


lemma encode_example:
  "b64urlEncode ''https://x.io/???~~~?a=b&c=d+e/f'' = ''aHR0cHM6Ly94LmlvLz8_P35-fj9hPWImYz1kK2UvZg''"
  by code_simp

theorem proxy_url_roundtrip_witness:
  "build_request (env_fixture (first_then plain_response plain_response))
       (holding access_token_fixture) (InString href_fixture) None
     = Inr (proxy_url_fixture, assemble_options (InString href_fixture) None headers_fixture) \<and>
   getUrl url_fixture (InString href_fixture) = Inr (URL href_fixture) \<and>
   b64urlDecode (drop (length ''https://localhost:8787.bridggy.com/proxy?u='') proxy_url_fixture)
     = Inr href_fixture \<and>
   b64urlEncode ''https://x.io/???~~~?a=b&c=d+e/f'' = ''aHR0cHM6Ly94LmlvLz8_P35-fj9hPWImYz1kK2UvZg'' \<and>
   b64urlDecode ''aHR0cHM6Ly94LmlvLz8_P35-fj9hPWImYz1kK2UvZg'' = Inr ''https://x.io/???~~~?a=b&c=d+e/f''"
proof -
  let ?ev = "env_fixture (first_then plain_response plain_response)"
  let ?c = "holding access_token_fixture"
  let ?req = "assemble_options (InString href_fixture) None headers_fixture"
  have br: "build_request ?ev ?c (InString href_fixture) None = Inr (proxy_url_fixture, ?req)"
    by (rule build_request_fixture) (simp_all add: init_get_def holding_def)
  have u: "getUrl (url_parse ?ev) (InString href_fixture) = Inr (URL href_fixture)"
    by (simp add: getUrl_def env_fixture_def url_fixture_def href_fixture_def startsWith_def)
  have p: "getTokenPayload (json_parse ?ev) (token ?c)
           = Inr (JObject [(''exp'', JNumber 4000), (''scope'', JString ''localhost:8787'')])"
    by (simp add: env_fixture_def holding_def payload_access)
  from proxy_url_roundtrip [of _ _ ?ev ?c "InString href_fixture" None proxy_url_fixture ?req] br
  obtain v payload scope sc where
    *: "getUrl (url_parse ?ev) (InString href_fixture) = Inr v"
       "getTokenPayload (json_parse ?ev) (token ?c) = Inr payload"
       "get_prop payload ''scope'' = Inr scope" "js_string scope = Inr sc"
       "b64urlDecode (drop (length (''https://'' @ sc @ ''.bridggy.com/proxy?u='')) proxy_url_fixture)
          = Inr (href v)"
    by blast
  from *(1) u have v: "v = URL href_fixture" by simp
  from *(2) p have "payload = JObject [(''exp'', JNumber 4000), (''scope'', JString ''localhost:8787'')]"
    by simp
  with *(3) have "scope = Some (JString ''localhost:8787'')" by (simp add: get_prop_def)
  with *(4) have sc: "sc = ''localhost:8787''" by (simp add: js_string_def)
  from *(5) v sc have a: "b64urlDecode (drop (length ''https://localhost:8787.bridggy.com/proxy?u='')
                             proxy_url_fixture) = Inr href_fixture"
    by simp
  have b: "b64urlDecode (b64urlEncode ''https://x.io/???~~~?a=b&c=d+e/f'')
           = Inr ''https://x.io/???~~~?a=b&c=d+e/f''"
    using proxy_url_roundtrip [of _ "''https://x.io/???~~~?a=b&c=d+e/f''"] by blast
  have u': "getUrl url_fixture (InString href_fixture) = Inr (URL href_fixture)"
    using u by (simp add: env_fixture_def)
  show ?thesis
    using br u' a b encode_example by simp
qed

section \<open>The exchange\<close>

lemma json_quote_plain: "list_all json_plain_char s \<Longrightarrow> concat (map json_quote_char s) = s"
  by (induction s) (auto simp: json_quote_char_def json_plain_char_def Let_def char_eq_nat)

lemma stringify_plain:
  \<open>list_all json_plain_char s \<Longrightarrow>
   stringify_TokenRequest (Some s) = ''{"token":"'' @ s @ ''"}''\<close>
  by (simp add: stringify_TokenRequest_def json_quote_def json_quote_plain)

lemma show_nat_digits: "list_all is_digit (show_nat n)"
proof (induction n rule: show_nat.induct)
  case (1 n)
  have d: "is_digit (char_of (48 + n mod 10))"
    using mod_less_divisor [of 10 n] by (simp add: is_digit_def)
  show ?case
  proof (cases "n < 10")
    case True
    then have "is_digit (char_of (48 + n))" by (simp add: is_digit_def)
    with True show ?thesis by (subst show_nat.simps) simp
  next
    case False
    with 1 d show ?thesis by (subst show_nat.simps) simp
  qed
qed

lemma decimal_value_snoc:
  "decimal_value (s @ [c]) = 10 * decimal_value s + ((of_char c :: nat) - 48)"
  by (simp add: decimal_value_def)

lemma decimal_value_show_nat: "decimal_value (show_nat n) = n"
proof (induction n rule: show_nat.induct)
  case (1 n)
  show ?case
  proof (cases "n < 10")
    case True
    then show ?thesis by (subst show_nat.simps) (simp add: decimal_value_def)
  next
    case False
    have m: "(of_char (char_of (48 + n mod 10) :: char) :: nat) = 48 + n mod 10"
      using mod_less_divisor [of 10 n] by simp
    from False 1 have "decimal_value (show_nat (n div 10)) = n div 10" by simp
    with False m show ?thesis
      by (subst show_nat.simps) (simp add: decimal_value_snoc)
  qed
qed

lemma show_int_decimal:
  "0 \<le> i \<Longrightarrow> list_all is_digit (show_int i) \<and> int (decimal_value (show_int i)) = i"
  by (simp add: show_int_def show_nat_digits decimal_value_show_nat)

lemma exchange_decoded:
  assumes "getTokenPayload (json_parse ev) (map_option JString (proxyToken c)) = Inr payload"
    and "get_prop payload ''aud'' = Inr aud" and "js_string aud = Inr aud_s"
  shows "exchange ev c =
     (case global_fetch ev 0 (aud_s @ ''/token/exchange'') (exchange_options ev c) of
        Inl e \<Rightarrow> Inl e
      | Inr resp \<Rightarrow>
          if \<not> resp_ok resp
          then Inl (Error (''status: '' @ show_int (resp_status resp)
                           @ '' proxy: Token exchange failed''))
          else (case json_parse ev (resp_body resp) of
                  None \<Rightarrow> Inl SyntaxError
                | Some tokenResp \<Rightarrow>
                    (case get_prop tokenResp ''token'' of
                       Inl e \<Rightarrow> Inl e
                     | Inr t \<Rightarrow> Inr (c\<lparr>token := t\<rparr>))),
      [Call (aud_s @ ''/token/exchange'') (exchange_options ev c)])"
  using assms
  by (simp add: exchange_def exchange_options_def Let_def HeaderTimestamp_def HeaderSource_def
        SourceName_def split: sum.splits option.splits)

text \<open>
  C6: when the claims of the long-lived credential do not decode, \<^verbatim>\<open>exchange\<close> fails with
  that error and makes no call of the transport. Otherwise, with \<open>aud\<close> read from the claims,
  it makes exactly one call: to \<^verbatim>\<open>{aud}/token/exchange\<close>, with method \<^verbatim>\<open>POST\<close>, the headers
  \<^verbatim>\<open>Content-Type: application/json\<close>, \<^verbatim>\<open>gg-x-timestamp\<close> (the current time in milliseconds, in
  decimal digits) and \<^verbatim>\<open>gg-x-source: client\<close>, and the body \<^verbatim>\<open>{"token":"<credential>"}\<close>. A
  response that is not \<^verbatim>\<open>ok\<close> makes it fail with
  \<^verbatim>\<open>status: {status} proxy: Token exchange failed\<close>; an \<^verbatim>\<open>ok\<close> response whose body parses
  makes the \<^verbatim>\<open>token\<close> property of the body the held access credential.
\<close>

theorem exchange_contract:
  \<open>(getTokenPayload (json_parse ev) (map_option JString (proxyToken c)) = Inl e \<longrightarrow>
      exchange ev c = (Inl e, [])) \<and>
   (getTokenPayload (json_parse ev) (map_option JString (proxyToken c)) = Inr payload \<and>
    get_prop payload ''aud'' = Inr aud \<and> js_string aud = Inr aud_s \<longrightarrow>
      snd (exchange ev c) = [Call (aud_s @ ''/token/exchange'') (exchange_options ev c)] \<and>
      exchange_options ev c ''method'' = Some (VString ''POST'') \<and>
      exchange_options ev c ''headers''
        = Some (VHeaders [(''Content-Type'', ''application/json''),
                          (''gg-x-timestamp'', show_int (now_exchange ev)),
                          (''gg-x-source'', ''client'')]) \<and>
      exchange_options ev c ''body'' = Some (VString (stringify_TokenRequest (proxyToken c))) \<and>
      (global_fetch ev 0 (aud_s @ ''/token/exchange'') (exchange_options ev c) = Inr resp \<and>
       \<not> resp_ok resp \<longrightarrow>
         fst (exchange ev c)
           = Inl (Error (''status: '' @ show_int (resp_status resp)
                         @ '' proxy: Token exchange failed''))) \<and>
      (global_fetch ev 0 (aud_s @ ''/token/exchange'') (exchange_options ev c) = Inr resp \<and>
       resp_ok resp \<and> json_parse ev (resp_body resp) = Some body \<and>
       get_prop body ''token'' = Inr t \<longrightarrow>
         fst (exchange ev c) = Inr (c\<lparr>token := t\<rparr>))) \<and>
   (list_all json_plain_char pt \<longrightarrow>
      stringify_TokenRequest (Some pt) = ''{"token":"'' @ pt @ ''"}'') \<and>
   (0 \<le> now_exchange ev \<longrightarrow>
      list_all is_digit (show_int (now_exchange ev)) \<and>
      int (decimal_value (show_int (now_exchange ev))) = now_exchange ev)\<close>
proof -
  have a: "getTokenPayload (json_parse ev) (map_option JString (proxyToken c)) = Inl e \<longrightarrow>
      exchange ev c = (Inl e, [])"
    by (simp add: exchange_def)
  show ?thesis
    using a stringify_plain [of pt] show_int_decimal [of "now_exchange ev"]
    by (auto simp: exchange_decoded) (simp_all add: exchange_options_def)
qed

lemma payload_proxy:
  "getTokenPayload parse_fixture (Some (JString proxy_token_fixture))
   = Inr (JObject [(''aud'', JString ''http://localhost:8787'')])"
  by code_simp

lemma show_int_examples:
  "show_int 401 = ''401''" "show_int 1234 = ''1234''"
  by code_simp+

lemma proxy_token_plain: "list_all json_plain_char proxy_token_fixture"
  by code_simp

lemma parse_token_response:
  "parse_fixture (resp_body token_response)
   = Some (JObject [(''token'', JString access_token_fixture)])"
  by (simp add: parse_fixture_def token_response_def access_token_fixture_def)

theorem exchange_contract_witness:
  \<open>getTokenPayload parse_fixture (map_option JString (proxyToken (holding access_token_fixture)))
     = Inl (Error ''Invalid token'') \<and>
   exchange (env_fixture (first_then token_response plain_response)) (holding access_token_fixture)
     = (Inl (Error ''Invalid token''), []) \<and>
   getTokenPayload parse_fixture (map_option JString (proxyToken configured_fixture))
     = Inr (JObject [(''aud'', JString ''http://localhost:8787'')]) \<and>
   snd (exchange (env_fixture (first_then token_response plain_response)) configured_fixture)
     = [Call ''http://localhost:8787/token/exchange''
          (exchange_options (env_fixture (first_then token_response plain_response))
             configured_fixture)] \<and>
   exchange_options (env_fixture (first_then token_response plain_response)) configured_fixture
       ''headers''
     = Some (VHeaders [(''Content-Type'', ''application/json''),
                       (''gg-x-timestamp'', ''1234''), (''gg-x-source'', ''client'')]) \<and>
   exchange_options (env_fixture (first_then token_response plain_response)) configured_fixture
       ''body''
     = Some (VString ''{"token":"h.eyJhdWQiOiJodHRwOi8vbG9jYWxob3N0Ojg3ODcifQ.s"}'') \<and>
   fst (exchange (env_fixture (first_then token_response plain_response)) configured_fixture)
     = Inr (configured_fixture\<lparr>token := Some (JString access_token_fixture)\<rparr>) \<and>
   \<not> resp_ok unauthorized_response \<and>
   fst (exchange (env_fixture (first_then unauthorized_response plain_response))
          configured_fixture)
     = Inl (Error ''status: 401 proxy: Token exchange failed'') \<and>
   decimal_value ''1234'' = 1234\<close>
proof -
  let ?ok = "env_fixture (first_then token_response plain_response)"
  let ?no = "env_fixture (first_then unauthorized_response plain_response)"
  let ?c = configured_fixture
  let ?aud = "JString ''http://localhost:8787''"
  let ?payload = "JObject [(''aud'', ?aud)]"
  have env: "json_parse ?ok = parse_fixture" "json_parse ?no = parse_fixture"
    "global_fetch ?ok = first_then token_response plain_response"
    "global_fetch ?no = first_then unauthorized_response plain_response"
    "now_exchange ?ok = 1234" "now_exchange ?no = 1234"
    by (simp_all add: env_fixture_def)
  have pt: "proxyToken ?c = Some proxy_token_fixture"
    "proxyToken (holding access_token_fixture) = Some ''proxy-token''"
    by (simp_all add: configured_fixture_def configure_def holding_def)
  have bad: "getTokenPayload parse_fixture (map_option JString
               (proxyToken (holding access_token_fixture))) = Inl (Error ''Invalid token'')"
    by (simp add: pt) code_simp
  have good: "getTokenPayload parse_fixture (map_option JString (proxyToken ?c)) = Inr ?payload"
    by (simp add: pt payload_proxy)
  have aud: "get_prop ?payload ''aud'' = Inr (Some ?aud)"
    "js_string (Some ?aud) = Inr ''http://localhost:8787''"
    by (simp_all add: get_prop_def js_string_def)
  have tok: "get_prop (JObject [(''token'', JString access_token_fixture)]) ''token''
             = Inr (Some (JString access_token_fixture))"
    by (simp add: get_prop_def)
  have w1: "exchange ?ok (holding access_token_fixture) = (Inl (Error ''Invalid token''), [])"
    using exchange_contract [of ?ok "holding access_token_fixture" "Error ''Invalid token''"]
      bad env(1) by simp
  note ok = exchange_contract [of ?ok ?c _ ?payload "Some ?aud" "''http://localhost:8787''"
      token_response "JObject [(''token'', JString access_token_fixture)]"
      "Some (JString access_token_fixture)" proxy_token_fixture]
  note no = exchange_contract [of ?no ?c _ ?payload "Some ?aud" "''http://localhost:8787''"
      unauthorized_response]
  have ro: "resp_ok token_response" "\<not> resp_ok unauthorized_response"
    "resp_status unauthorized_response = 401"
    by (simp_all add: token_response_def unauthorized_response_def)
  have w2: "snd (exchange ?ok ?c)
            = [Call ''http://localhost:8787/token/exchange'' (exchange_options ?ok ?c)]"
    using ok good aud env(1) by simp
  have w3: "exchange_options ?ok ?c ''headers''
            = Some (VHeaders [(''Content-Type'', ''application/json''),
                       (''gg-x-timestamp'', ''1234''), (''gg-x-source'', ''client'')])"
    using ok good aud env(1,5) show_int_examples(2) by simp
  have w4: \<open>exchange_options ?ok ?c ''body''
            = Some (VString ''{"token":"h.eyJhdWQiOiJodHRwOi8vbG9jYWxob3N0Ojg3ODcifQ.s"}'')\<close>
    using ok good aud env(1) pt(1) proxy_token_plain
    by (simp add: proxy_token_fixture_def)
  have w5: "fst (exchange ?ok ?c) = Inr (?c\<lparr>token := Some (JString access_token_fixture)\<rparr>)"
    using ok good aud env(1,3) ro(1) parse_token_response tok first_then_facts(1)
    by simp
  have w6: "fst (exchange ?no ?c) = Inl (Error ''status: 401 proxy: Token exchange failed'')"
    using no good aud env(2,4) ro(2,3) first_then_facts(1) show_int_examples(1)
    by simp
  have w7: "decimal_value ''1234'' = 1234"
    using ok env(5) show_int_examples(2) by simp
  show ?thesis
    using bad w1 good w2 w3 w4 w5 ro(2) w6 w7 by simp
qed

section \<open>Dispatch and the single retry\<close>












end
